theory Spec2Isabelle
  imports Complex_Main "HOL-Library.List_Lexorder"
begin

section \<open>createVideo.py: images and narration text to a narrated video\<close>

text \<open>
  A shallow embedding of \<^verbatim>\<open>src/createVideo.py\<close>. Python values are modelled as follows.
  \<^item> A \<^verbatim>\<open>str\<close> is the list of its Unicode code points (\<open>pystr\<close>), so that slicing,
    \<^verbatim>\<open>strip\<close> and comparison count what Python counts.
  \<^item> A \<^verbatim>\<open>pathlib.Path\<close> is the list of its parts (\<open>pypath\<close>); POSIX flavour.
  \<^item> A \<^verbatim>\<open>float\<close> is kept symbolic (\<open>pyfloat\<close>): the model never computes with binary
    floating point, it only records which float expression a value comes from.
  \<^item> An exception is a value of \<open>exn\<close>; a statement that may raise returns \<open>exn + 'a\<close> or
    \<open>exn option\<close> next to the world it leaves behind.
  \<^item> The file system, standard output and the calls made to the outside (HTTP requests,
    subprocesses) are the three fields of \<open>world\<close>, passed through every function.
  \<^item> What the outside answers (the VOICEVOX service, ffmpeg, the disk, the wave and codec
    libraries) is a record \<open>env\<close> of functions of the current world: any sequence of
    answers is some \<open>env\<close>.
\<close>

subsection \<open>Strings\<close>

type_synonym pystr = "nat list"
type_synonym bytes = "nat list"

text \<open>An ASCII literal as a Python string.\<close>

definition str :: "string \<Rightarrow> pystr" where
  "str s = map of_char s"

text \<open>
  \<^verbatim>\<open>str.isspace\<close> for one code point: the code points Python 3 treats as whitespace,
  which are the ones \<^verbatim>\<open>str.strip()\<close> removes.
\<close>

definition isspace :: "nat \<Rightarrow> bool" where
  "isspace c \<longleftrightarrow>
     (9 \<le> c \<and> c \<le> 13) \<or> (28 \<le> c \<and> c \<le> 32) \<or> c = 133 \<or> c = 160 \<or> c = 5760 \<or>
     (8192 \<le> c \<and> c \<le> 8202) \<or> c = 8232 \<or> c = 8233 \<or> c = 8239 \<or> c = 8287 \<or> c = 12288"

definition lstrip :: "pystr \<Rightarrow> pystr" where
  "lstrip s = dropWhile isspace s"

definition rstrip :: "pystr \<Rightarrow> pystr" where
  "rstrip s = rev (dropWhile isspace (rev s))"

text \<open>\<^verbatim>\<open>s.strip()\<close>\<close>

definition strip :: "pystr \<Rightarrow> pystr" where
  "strip s = lstrip (rstrip s)"

text \<open>The line break \<^verbatim>\<open>"\n"\<close>.\<close>

abbreviation LF :: nat where
  "LF \<equiv> 10"

text \<open>Put a character in front of the first piece of a list of pieces.\<close>

fun push :: "nat \<Rightarrow> pystr list \<Rightarrow> pystr list" where
  "push c [] = [[c]]"
| "push c (p # ps) = (c # p) # ps"

text \<open>
  \<^verbatim>\<open>s.split("\n\n")\<close>: the pieces between the occurrences of the separator, found from
  the left and not overlapping; always at least one piece.
\<close>

fun split_nn :: "pystr \<Rightarrow> pystr list" where
  "split_nn (a # b # cs) =
     (if a = LF \<and> b = LF then [] # split_nn cs else push a (split_nn (b # cs)))"
| "split_nn [a] = [[a]]"
| "split_nn [] = [[]]"

text \<open>
  The text part of \<^verbatim>\<open>read_lines_with_paragraphs\<close> (lines 41 to 43), on the content
  that \<^verbatim>\<open>f.read()\<close> returned:
  \<^verbatim>\<open>
    content = f.read().strip()
    blocks = [block.strip() for block in content.split("\n\n") if block.strip()]
  \<close>
\<close>

definition paragraphs :: "pystr \<Rightarrow> pystr list" where
  "paragraphs content =
     map strip (filter (\<lambda>block. strip block \<noteq> []) (split_nn (strip content)))"

text \<open>\<^verbatim>\<open>f"{n:03d}"\<close>: decimal, padded with zeros to at least three digits.\<close>

fun digits :: "nat \<Rightarrow> pystr" where
  "digits n = (if n < 10 then [48 + n] else digits (n div 10) @ [48 + n mod 10])"

declare digits.simps [simp del]

definition fmt03d :: "nat \<Rightarrow> pystr" where
  "fmt03d n = replicate (3 - length (digits n)) 48 @ digits n"

subsection \<open>Paths\<close>

type_synonym pypath = "pystr list"

text \<open>\<^verbatim>\<open>sep.join(parts)\<close> with the separator \<^verbatim>\<open>/\<close>.\<close>

fun join_slash :: "pystr list \<Rightarrow> pystr" where
  "join_slash [] = []"
| "join_slash [p] = p"
| "join_slash (p # q # ps) = p @ [47] @ join_slash (q # ps)"

text \<open>
  \<^verbatim>\<open>str(path)\<close>: the root, when there is one, is the first part \<^verbatim>\<open>/\<close>; a path with no
  part prints as a dot.
\<close>

definition path_str :: "pypath \<Rightarrow> pystr" where
  "path_str p =
     (case p of
        [] \<Rightarrow> [46]
      | r # ps \<Rightarrow> if r = [47] then [47] @ join_slash ps else join_slash (r # ps))"

text \<open>\<^verbatim>\<open>path.name\<close>: the final component, empty for a path that is only a root or has no part.\<close>

definition path_name :: "pypath \<Rightarrow> pystr" where
  "path_name p =
     (if length p = (if p \<noteq> [] \<and> hd p = [47] then 1 else 0) then [] else last p)"

text \<open>\<^verbatim>\<open>name.rfind('.')\<close>: the last index of the character, if any.\<close>

definition rfind :: "nat \<Rightarrow> pystr \<Rightarrow> nat option" where
  "rfind c s =
     (case filter (\<lambda>i. s ! i = c) (rev [0..<length s]) of [] \<Rightarrow> None | i # _ \<Rightarrow> Some i)"

text \<open>
  \<^verbatim>\<open>path.suffix\<close> (pathlib):
  \<^verbatim>\<open>
    name = self.name
    i = name.rfind('.')
    if 0 < i < len(name) - 1: return name[i:]
    else: return ''
  \<close>
\<close>

definition suffix :: "pypath \<Rightarrow> pystr" where
  "suffix p =
     (let name = path_name p in
      case rfind 46 name of
        None \<Rightarrow> []
      | Some i \<Rightarrow> if 0 < i \<and> i + 1 < length name then drop i name else [])"

text \<open>
  \<^verbatim>\<open>s.lower()\<close>. The letters A to Z go to a to z. Code points above 127 are left as they
  are: Python lowercases some of them, but never to a string that holds a letter of the
  four image extensions, so membership in \<open>image_exts\<close> is not affected.
\<close>

definition lower :: "pystr \<Rightarrow> pystr" where
  "lower s = map (\<lambda>c. if 65 \<le> c \<and> c \<le> 90 then c + 32 else c) s"

definition image_exts :: "pystr list" where
  "image_exts = [str ''.png'', str ''.jpg'', str ''.jpeg'', str ''.bmp'']"

definition audio_dir :: pypath where
  "audio_dir = [str ''audio'']"

definition video_dir :: pypath where
  "video_dir = [str ''clips'']"

text \<open>
  \<^verbatim>\<open>audio_dir / f"line{k:03d}.wav"\<close> and \<^verbatim>\<open>video_dir / f"clip{k:03d}.mp4"\<close>, for the
  1-based number \<open>k\<close> of an item.
\<close>

definition audio_path :: "nat \<Rightarrow> pypath" where
  "audio_path k = audio_dir @ [str ''line'' @ fmt03d k @ str ''.wav'']"

definition clip_path :: "nat \<Rightarrow> pypath" where
  "clip_path k = video_dir @ [str ''clip'' @ fmt03d k @ str ''.mp4'']"

subsection \<open>Values, exceptions, the world\<close>

text \<open>
  A float value, symbolic: the float parsed from a command line argument, or the result
  of the true division \<^verbatim>\<open>a / b\<close> of two integers.
\<close>

datatype pyfloat = FloatArg pystr | TrueDiv nat nat


datatype json =
    JNull
  | JBool bool
  | JInt int
  | JFloat pyfloat
  | JStr pystr
  | JArr "json list"
  | JObj "(pystr \<times> json) list"

datatype exn =
    RequestException
  | HTTPError nat
  | JSONDecodeError
  | TypeError
  | IndexError
  | OSError
  | FileNotFoundError
  | FileExistsError
  | IsADirectoryError
  | UnicodeDecodeError
  | WaveError
  | EOFError
  | ZeroDivisionError
  | CalledProcessError nat

text \<open>An HTTP response: the status, the body as JSON when it parses, the raw body.\<close>

record response =
  status_code :: nat
  body_json :: "json option"
  content :: bytes

text \<open>One argument of a command line: a string, or \<^verbatim>\<open>str(x)\<close> of a float.\<close>

datatype arg = Arg pystr | FloatStr pyfloat

text \<open>What the program does to the outside, in order.\<close>

datatype call =
    PostAudioQuery pystr int
  | PostSynthesis json int
  | Subprocess "arg list"

text \<open>Every \<^verbatim>\<open>print\<close> of the program, with its interpolated values.\<close>

datatype msg =
    MsgMissingInput
  | MsgNoImages
  | MsgImagesShort nat nat
  | MsgLinesShort nat nat
  | MsgSynthFailed pystr exn
  | MsgRenderFailed pystr exn
  | MsgConcatFailed exn
  | MsgDone pystr

datatype node = Dir | File bytes

record world =
  fs :: "pystr \<Rightarrow> node option"
  out :: "msg list"
  calls :: "call list"

text \<open>A subprocess either could not be started, or ran and returned an exit status.\<close>

datatype proc = NotLaunched exn | Returned nat

text \<open>
  Opening a file for writing and writing it: done, or the open failed (nothing
  changes), or the write failed after the open (the file holds what was written).
\<close>

datatype write_outcome = Written | OpenFailed exn | WriteFailed exn bytes

text \<open>
  The collaborators, each a function of the world at the moment of the call:
  \<^item> \<open>http_audio_query\<close>, \<open>http_synthesis\<close>: \<^verbatim>\<open>requests.post\<close> to the two VOICEVOX end
    points; \<open>Inl\<close> when the request itself raises;
  \<^item> \<open>disk_write\<close>: what happens when a file is opened for writing and written;
  \<^item> \<open>wave_header\<close>: \<^verbatim>\<open>wave.open\<close> on a file's bytes, giving \<^verbatim>\<open>getnframes()\<close> and
    \<^verbatim>\<open>getframerate()\<close>, or the exception it raises;
  \<^item> \<open>run_process\<close>: the outcome of a subprocess and the file system it leaves;
  \<^item> \<open>listdir\<close>: the names in a directory, in the order the system lists them;
  \<^item> \<open>decode_text\<close>: reading bytes as UTF-8 text with universal newlines.
\<close>

record env =
  http_audio_query :: "world \<Rightarrow> pystr \<Rightarrow> int \<Rightarrow> exn + response"
  http_synthesis :: "world \<Rightarrow> json \<Rightarrow> int \<Rightarrow> exn + response"
  disk_write :: "world \<Rightarrow> pystr \<Rightarrow> bytes \<Rightarrow> write_outcome"
  wave_header :: "bytes \<Rightarrow> exn + nat \<times> nat"
  run_process :: "world \<Rightarrow> arg list \<Rightarrow> proc \<times> (pystr \<Rightarrow> node option)"
  listdir :: "world \<Rightarrow> pystr \<Rightarrow> pystr list"
  decode_text :: "bytes \<Rightarrow> exn + pystr"

text \<open>The parsed command line (lines 52 to 62).\<close>

record args =
  arg_images :: pypath
  arg_lines :: pypath
  arg_speed :: pyfloat
  arg_speaker :: int
  arg_output :: pystr

text \<open>How the process ends: \<^verbatim>\<open>sys.exit(n)\<close> or falling off \<open>main\<close> (0), or a traceback.\<close>

datatype status = Exit nat | Traceback exn

text \<open>The exit code the shell sees: an uncaught exception ends Python with code 1.\<close>

fun exit_code :: "status \<Rightarrow> nat" where
  "exit_code (Exit n) = n"
| "exit_code (Traceback e) = 1"

definition print :: "msg \<Rightarrow> world \<Rightarrow> world" where
  "print m w = w\<lparr>out := out w @ [m]\<rparr>"

definition called :: "call \<Rightarrow> world \<Rightarrow> world" where
  "called c w = w\<lparr>calls := calls w @ [c]\<rparr>"

definition exists :: "world \<Rightarrow> pypath \<Rightarrow> bool" where
  "exists w p \<longleftrightarrow> fs w (path_str p) \<noteq> None"

definition is_dir :: "world \<Rightarrow> pypath \<Rightarrow> bool" where
  "is_dir w p \<longleftrightarrow> fs w (path_str p) = Some Dir"

text \<open>\<^verbatim>\<open>with open(path, mode) as f: f.write(data)\<close>\<close>

definition write_file :: "env \<Rightarrow> pystr \<Rightarrow> bytes \<Rightarrow> world \<Rightarrow> exn option \<times> world" where
  "write_file E p data w =
     (case disk_write E w p data of
        Written \<Rightarrow> (None, w\<lparr>fs := (fs w)(p \<mapsto> File data)\<rparr>)
      | OpenFailed e \<Rightarrow> (Some e, w)
      | WriteFailed e part \<Rightarrow> (Some e, w\<lparr>fs := (fs w)(p \<mapsto> File part)\<rparr>))"

text \<open>\<^verbatim>\<open>response.raise_for_status()\<close>: a status from 400 to 599 raises.\<close>

definition raise_for_status :: "response \<Rightarrow> exn option" where
  "raise_for_status r =
     (if 400 \<le> status_code r \<and> status_code r < 600 then Some (HTTPError (status_code r))
      else None)"

text \<open>\<^verbatim>\<open>obj[key] = value\<close> on a parsed JSON value: only a dict takes a string key.\<close>

fun set_key :: "pystr \<Rightarrow> json \<Rightarrow> (pystr \<times> json) list \<Rightarrow> (pystr \<times> json) list" where
  "set_key k v [] = [(k, v)]"
| "set_key k v (p # ps) = (if fst p = k then (k, v) # ps else p # set_key k v ps)"

fun setitem :: "json \<Rightarrow> pystr \<Rightarrow> json \<Rightarrow> exn + json" where
  "setitem (JObj kvs) k v = Inr (JObj (set_key k v kvs))"
| "setitem _ k v = Inl TypeError"

subsection \<open>synthesize\_voice (lines 14 to 37)\<close>

text \<open>
  The body of the \<^verbatim>\<open>try\<close>: the first exception ends it. Every request made is recorded
  in \<open>calls\<close>.
  \<^verbatim>\<open>
    query = requests.post(f"{VOICEVOX_URL}/audio_query", params={"text": text, "speaker": speaker_id})
    query.raise_for_status()
    query_json = query.json()
    query_json["speedScale"] = speed
    synth = requests.post(f"{VOICEVOX_URL}/synthesis", params={"speaker": speaker_id},
                          data=json.dumps(query_json))
    synth.raise_for_status()
    with open(out_path, "wb") as f:
        f.write(synth.content)
  \<close>
\<close>

definition synthesize_try ::
  "env \<Rightarrow> pystr \<Rightarrow> pystr \<Rightarrow> int \<Rightarrow> pyfloat \<Rightarrow> world \<Rightarrow> exn option \<times> world" where
  "synthesize_try E text out_path speaker_id speed w =
     (let w1 = called (PostAudioQuery text speaker_id) w in
      case http_audio_query E w text speaker_id of
        Inl e \<Rightarrow> (Some e, w1)
      | Inr query \<Rightarrow>
          (case raise_for_status query of
             Some e \<Rightarrow> (Some e, w1)
           | None \<Rightarrow>
               (case body_json query of
                  None \<Rightarrow> (Some JSONDecodeError, w1)
                | Some j \<Rightarrow>
                    (case setitem j (str ''speedScale'') (JFloat speed) of
                       Inl e \<Rightarrow> (Some e, w1)
                     | Inr query_json \<Rightarrow>
                         (let w2 = called (PostSynthesis query_json speaker_id) w1 in
                          case http_synthesis E w1 query_json speaker_id of
                            Inl e \<Rightarrow> (Some e, w2)
                          | Inr synth \<Rightarrow>
                              (case raise_for_status synth of
                                 Some e \<Rightarrow> (Some e, w2)
                               | None \<Rightarrow> write_file E out_path (content synth) w2))))))"

text \<open>
  \<^verbatim>\<open>
    except Exception as e:
        print(f"... {text[:30]}... -> {e}")
        return False
    return True
  \<close>
\<close>

definition synthesize_voice ::
  "env \<Rightarrow> pystr \<Rightarrow> pystr \<Rightarrow> int \<Rightarrow> pyfloat \<Rightarrow> world \<Rightarrow> bool \<times> world" where
  "synthesize_voice E text out_path speaker_id speed w =
     (case synthesize_try E text out_path speaker_id speed w of
        (Some e, w') \<Rightarrow> (False, print (MsgSynthFailed (take 30 text) e) w')
      | (None, w') \<Rightarrow> (True, w'))"

subsection \<open>read\_lines\_with\_paragraphs (lines 39 to 43) and get\_wav\_duration (lines 45 to 49)\<close>

text \<open>\<^verbatim>\<open>open(path, ...)\<close> for reading, then the bytes of the file.\<close>

definition read_bytes :: "world \<Rightarrow> pystr \<Rightarrow> exn + bytes" where
  "read_bytes w p =
     (case fs w p of
        None \<Rightarrow> Inl FileNotFoundError
      | Some Dir \<Rightarrow> Inl IsADirectoryError
      | Some (File b) \<Rightarrow> Inr b)"

definition read_lines_with_paragraphs :: "env \<Rightarrow> pypath \<Rightarrow> world \<Rightarrow> exn + pystr list" where
  "read_lines_with_paragraphs E path w =
     (case read_bytes w (path_str path) of
        Inl e \<Rightarrow> Inl e
      | Inr b \<Rightarrow>
          (case decode_text E b of
             Inl e \<Rightarrow> Inl e
           | Inr text \<Rightarrow> Inr (paragraphs text)))"

text \<open>
  \<^verbatim>\<open>
    with wave.open(str(path), "rb") as wf:
        frames = wf.getnframes()
        rate = wf.getframerate()
        return frames / rate
  \<close>
  The division of two integers raises when the divisor is 0 and gives a float otherwise.
\<close>

definition get_wav_duration :: "env \<Rightarrow> pypath \<Rightarrow> world \<Rightarrow> exn + pyfloat" where
  "get_wav_duration E path w =
     (case read_bytes w (path_str path) of
        Inl e \<Rightarrow> Inl e
      | Inr b \<Rightarrow>
          (case wave_header E b of
             Inl e \<Rightarrow> Inl e
           | Inr (frames, rate) \<Rightarrow>
               if rate = 0 then Inl ZeroDivisionError else Inr (TrueDiv frames rate)))"

subsection \<open>main (lines 51 to 126)\<close>

text \<open>\<^verbatim>\<open>path.mkdir(exist_ok=True)\<close>\<close>

definition mkdir :: "pypath \<Rightarrow> world \<Rightarrow> exn + world" where
  "mkdir p w =
     (case fs w (path_str p) of
        None \<Rightarrow> Inr (w\<lparr>fs := (fs w)(path_str p \<mapsto> Dir)\<rparr>)
      | Some Dir \<Rightarrow> Inr w
      | Some (File b) \<Rightarrow> Inl FileExistsError)"

text \<open>
  \<^verbatim>\<open>subprocess.run(argv, check=True)\<close>: the call is recorded, the process leaves its file
  system; a process that cannot be started raises what the system raises, a non-zero
  exit status raises \<open>CalledProcessError\<close>.
\<close>

definition subprocess_run :: "env \<Rightarrow> arg list \<Rightarrow> world \<Rightarrow> exn option \<times> world" where
  "subprocess_run E argv w =
     (case run_process E w argv of
        (outcome, fs') \<Rightarrow>
          (let w' = called (Subprocess argv) (w\<lparr>fs := fs'\<rparr>) in
           case outcome of
             NotLaunched e \<Rightarrow> (Some e, w')
           | Returned c \<Rightarrow> (if c = 0 then None else Some (CalledProcessError c), w')))"

text \<open>The command line of the render call (lines 98 to 108).\<close>

definition render_args :: "pypath \<Rightarrow> pypath \<Rightarrow> pyfloat \<Rightarrow> pypath \<Rightarrow> arg list" where
  "render_args frame audio duration clip =
     [Arg (str ''ffmpeg''), Arg (str ''-y''),
      Arg (str ''-loop''), Arg (str ''1''), Arg (str ''-i''), Arg (path_str frame),
      Arg (str ''-i''), Arg (path_str audio),
      Arg (str ''-c:v''), Arg (str ''libx264''),
      Arg (str ''-c:a''), Arg (str ''aac''), Arg (str ''-b:a''), Arg (str ''192k''),
      Arg (str ''-pix_fmt''), Arg (str ''yuv420p''),
      Arg (str ''-t''), FloatStr duration,
      Arg (str ''-vf''), Arg (str ''scale=trunc(iw/2)*2:trunc(ih/2)*2''),
      Arg (path_str clip)]"

text \<open>The command line of the final concatenation (lines 119 to 122).\<close>

definition concat_args :: "pystr \<Rightarrow> arg list" where
  "concat_args output =
     [Arg (str ''ffmpeg''), Arg (str ''-y''), Arg (str ''-f''), Arg (str ''concat''),
      Arg (str ''-safe''), Arg (str ''0''),
      Arg (str ''-i''), Arg (str ''filelist.txt''), Arg (str ''-c''), Arg (str ''copy''),
      Arg output]"

text \<open>
  Lines 68 and 69:
  \<^verbatim>\<open>
    image_exts = (".png", ".jpg", ".jpeg", ".bmp")
    frames = sorted([p for p in frames_dir.iterdir() if p.suffix.lower() in image_exts])
  \<close>
  \<^verbatim>\<open>iterdir\<close> yields the directory joined with each name; \<^verbatim>\<open>sorted\<close> compares paths as
  pathlib does, by their lists of parts, each part a string compared by code points.
\<close>

definition iterdir :: "env \<Rightarrow> world \<Rightarrow> pypath \<Rightarrow> pypath list" where
  "iterdir E w d = map (\<lambda>name. d @ [name]) (listdir E w (path_str d))"

definition image_frames :: "env \<Rightarrow> world \<Rightarrow> pypath \<Rightarrow> pypath list" where
  "image_frames E w frames_dir =
     sort (filter (\<lambda>p. lower (suffix p) \<in> set image_exts) (iterdir E w frames_dir))"

text \<open>
  Lines 75 to 79: the number of items and the warning.
  \<^verbatim>\<open>
    n = min(len(frames), len(lines))
    if n < len(lines): print(... images short ...)
    elif n < len(frames): print(... lines short ...)
  \<close>
\<close>

definition item_count :: "pypath list \<Rightarrow> pystr list \<Rightarrow> nat" where
  "item_count frames lns = min (length frames) (length lns)"

definition warn_mismatch :: "pypath list \<Rightarrow> pystr list \<Rightarrow> world \<Rightarrow> world" where
  "warn_mismatch frames lns w =
     (let n = item_count frames lns in
      if n < length lns then print (MsgImagesShort (length frames) (length lns)) w
      else if n < length frames then print (MsgLinesShort (length frames) (length lns)) w
      else w)"

text \<open>
  The body of the loop (lines 87 to 110) for the index \<open>i\<close> of \<^verbatim>\<open>range(n)\<close>. An index
  out of range raises, as \<^verbatim>\<open>frames[i]\<close> does. The result of \<open>synthesize_voice\<close> is not
  looked at (line 93). Only \<open>CalledProcessError\<close> is caught around the render call.
\<close>

definition main_item ::
  "env \<Rightarrow> args \<Rightarrow> pypath list \<Rightarrow> pystr list \<Rightarrow> nat \<Rightarrow> world \<Rightarrow> exn option \<times> world" where
  "main_item E a frames lns i w =
     (if length frames \<le> i \<or> length lns \<le> i then (Some IndexError, w)
      else
        (let frame = frames ! i;
             text = lns ! i;
             audio = audio_path (i + 1);
             clip = clip_path (i + 1);
             w1 = (if \<not> exists w audio
                   then snd (synthesize_voice E text (path_str audio)
                               (arg_speaker a) (arg_speed a) w)
                   else w)
         in case get_wav_duration E audio w1 of
              Inl e \<Rightarrow> (Some e, w1)
            | Inr duration \<Rightarrow>
                (case subprocess_run E (render_args frame audio duration clip) w1 of
                   (None, w2) \<Rightarrow> (None, w2)
                 | (Some (CalledProcessError c), w2) \<Rightarrow>
                     (None, print (MsgRenderFailed (path_str clip) (CalledProcessError c)) w2)
                 | (Some e, w2) \<Rightarrow> (Some e, w2))))"

text \<open>The \<^verbatim>\<open>for\<close> loop over the indices: an exception that leaves the body ends it.\<close>

fun main_loop ::
  "env \<Rightarrow> args \<Rightarrow> pypath list \<Rightarrow> pystr list \<Rightarrow> nat list \<Rightarrow> world \<Rightarrow> exn option \<times> world" where
  "main_loop E a frames lns [] w = (None, w)"
| "main_loop E a frames lns (i # rest) w =
     (case main_item E a frames lns i w of
        (Some e, w') \<Rightarrow> (Some e, w')
      | (None, w') \<Rightarrow> main_loop E a frames lns rest w')"

text \<open>
  Lines 112 to 116: the manifest.
  \<^verbatim>\<open>
    with open("filelist.txt", "w", encoding="utf-8") as f:
        for i in range(1, n + 1):
            clip = video_dir / f"clip{i:03d}.mp4"
            if clip.exists():
                f.write(f"file '{clip}'\n")
  \<close>
  The text is ASCII, so its bytes are its code points.
\<close>

definition manifest_line :: "pypath \<Rightarrow> pystr" where
  "manifest_line clip = str ''file '' @ [39] @ path_str clip @ [39, LF]"

definition manifest_indices :: "world \<Rightarrow> nat \<Rightarrow> nat list" where
  "manifest_indices w n = filter (\<lambda>i. exists w (clip_path i)) [1..<n + 1]"

definition manifest_entries :: "world \<Rightarrow> nat \<Rightarrow> pystr list" where
  "manifest_entries w n = map (\<lambda>i. manifest_line (clip_path i)) (manifest_indices w n)"

definition main_manifest :: "env \<Rightarrow> nat \<Rightarrow> world \<Rightarrow> exn option \<times> world" where
  "main_manifest E n w = write_file E (str ''filelist.txt'') (concat (manifest_entries w n)) w"

text \<open>
  Lines 118 to 126: the concatenation, its \<^verbatim>\<open>except subprocess.CalledProcessError\<close>, and
  the last \<^verbatim>\<open>print\<close>, after which \<open>main\<close> returns.
\<close>

definition main_concat :: "env \<Rightarrow> args \<Rightarrow> world \<Rightarrow> status \<times> world" where
  "main_concat E a w =
     (case subprocess_run E (concat_args (arg_output a)) w of
        (None, w') \<Rightarrow> (Exit 0, print (MsgDone (arg_output a)) w')
      | (Some (CalledProcessError c), w') \<Rightarrow>
          (Exit 0, print (MsgDone (arg_output a)) (print (MsgConcatFailed (CalledProcessError c)) w'))
      | (Some e, w') \<Rightarrow> (Traceback e, w'))"

text \<open>Lines 81 to 126, from the creation of the two directories on.\<close>

definition main_run ::
  "env \<Rightarrow> args \<Rightarrow> pypath list \<Rightarrow> pystr list \<Rightarrow> world \<Rightarrow> status \<times> world" where
  "main_run E a frames lns w =
     (let n = item_count frames lns in
      case mkdir audio_dir w of
        Inl e \<Rightarrow> (Traceback e, w)
      | Inr w1 \<Rightarrow>
          (case mkdir video_dir w1 of
             Inl e \<Rightarrow> (Traceback e, w1)
           | Inr w2 \<Rightarrow>
               (case main_loop E a frames lns [0..<n] w2 of
                  (Some e, w3) \<Rightarrow> (Traceback e, w3)
                | (None, w3) \<Rightarrow>
                    (case main_manifest E n w3 of
                       (Some e, w4) \<Rightarrow> (Traceback e, w4)
                     | (None, w4) \<Rightarrow> main_concat E a w4))))"

text \<open>The whole of \<open>main\<close>, after the command line is parsed.\<close>

definition main :: "env \<Rightarrow> args \<Rightarrow> world \<Rightarrow> status \<times> world" where
  "main E a w =
     (let frames_dir = arg_images a; lines_file = arg_lines a in
      if \<not> is_dir w frames_dir \<or> \<not> exists w lines_file
      then (Exit 1, print MsgMissingInput w)
      else
        (let frames = image_frames E w frames_dir in
         if frames = [] then (Exit 1, print MsgNoImages w)
         else
           (case read_lines_with_paragraphs E lines_file w of
              Inl e \<Rightarrow> (Traceback e, w)
            | Inr lns \<Rightarrow> main_run E a frames lns (warn_mismatch frames lns w))))"

subsection \<open>Observing a run\<close>

text \<open>A call to the VOICEVOX service, as opposed to a subprocess.\<close>

fun is_tts :: "call \<Rightarrow> bool" where
  "is_tts (PostAudioQuery t s) = True"
| "is_tts (PostSynthesis j s) = True"
| "is_tts (Subprocess argv) = False"

text \<open>The calls made between an earlier world and a later one.\<close>

definition calls_since :: "world \<Rightarrow> world \<Rightarrow> call list" where
  "calls_since w w' = drop (length (calls w)) (calls w')"

text \<open>The messages printed between an earlier world and a later one.\<close>

definition out_since :: "world \<Rightarrow> world \<Rightarrow> msg list" where
  "out_since w w' = drop (length (out w)) (out w')"


text \<open>
  A command line is the render call of the item number \<open>k\<close> with the image \<open>frame\<close>:
  it is \<open>render_args\<close> for that image, the audio path and the clip path of \<open>k\<close>, and the
  duration it carries (its argument 17).
\<close>

definition is_render_of :: "pypath \<Rightarrow> nat \<Rightarrow> arg list \<Rightarrow> bool" where
  "is_render_of frame k argv \<longleftrightarrow>
     length argv = 21 \<and>
     (case argv ! 17 of
        FloatStr d \<Rightarrow> argv = render_args frame (audio_path k) d (clip_path k)
      | Arg s \<Rightarrow> False)"


subsection \<open>Sample inputs\<close>

text \<open>
  Concrete inputs on which the theorems below are instantiated. The command line names
  the image directory \<^verbatim>\<open>img\<close> and the text file \<^verbatim>\<open>t.txt\<close> and keeps the defaults.
\<close>

definition sample_args :: args where
  "sample_args =
     \<lparr>arg_images = [str ''img''], arg_lines = [str ''t.txt''],
      arg_speed = FloatArg (str ''1.0''), arg_speaker = 1, arg_output = str ''output.mp4''\<rparr>"

text \<open>
  A WAV file in the canonical layout, as VOICEVOX writes it: the RIFF header, a 16 byte
  \<^verbatim>\<open>fmt\<close> chunk (PCM, one channel, 16 bits per sample) with the frame rate, and the
  \<^verbatim>\<open>data\<close> chunk with the samples. Numbers are little-endian.
\<close>

definition le16 :: "nat \<Rightarrow> bytes" where
  "le16 n = [n mod 256, n div 256 mod 256]"

definition le32 :: "nat \<Rightarrow> bytes" where
  "le32 n = [n mod 256, n div 256 mod 256, n div 65536 mod 256, n div 16777216 mod 256]"

definition from_le :: "bytes \<Rightarrow> nat" where
  "from_le bs = foldr (\<lambda>b v. b + 256 * v) bs 0"

definition wav_file :: "nat \<Rightarrow> bytes \<Rightarrow> bytes" where
  "wav_file rate samples =
     str ''RIFF'' @ le32 (36 + length samples) @ str ''WAVE'' @
     str ''fmt '' @ le32 16 @ le16 1 @ le16 1 @ le32 rate @ le32 (2 * rate) @ le16 2 @ le16 16 @
     str ''data'' @ le32 (length samples) @ samples"

text \<open>The audio that the sample service answers: two frames of silence at 24000 Hz.\<close>

definition sample_wav :: bytes where
  "sample_wav = wav_file 24000 [0, 0, 0, 0]"

text \<open>
  What \<^verbatim>\<open>wave.open\<close>, \<^verbatim>\<open>getnframes\<close> and \<^verbatim>\<open>getframerate\<close> answer on the bytes of a file in
  that layout: a file of fewer than 8 bytes ends inside the first chunk header
  (\<open>EOFError\<close>); the ids \<^verbatim>\<open>RIFF\<close> and \<^verbatim>\<open>WAVE\<close> are checked; the number of frames is the
  size of the data chunk divided by the size of a frame; a frame rate of 0 is accepted.
  A file that is cut short or laid out otherwise is answered with an error; the samples
  hold no such file that the library would read.
\<close>

definition field :: "nat \<Rightarrow> nat \<Rightarrow> bytes \<Rightarrow> bytes" where
  "field off len b = take len (drop off b)"

definition read_wave_header :: "bytes \<Rightarrow> exn + nat \<times> nat" where
  "read_wave_header b =
     (if length b < 8 then Inl EOFError
      else if field 0 4 b \<noteq> str ''RIFF'' then Inl WaveError
      else if field 8 4 b \<noteq> str ''WAVE'' then Inl WaveError
      else if length b < 44 \<or> field 12 4 b \<noteq> str ''fmt '' \<or> from_le (field 16 4 b) \<noteq> 16 \<or>
              from_le (field 20 2 b) \<noteq> 1 \<or> field 36 4 b \<noteq> str ''data''
      then Inl WaveError
      else
        (let channels = from_le (field 22 2 b);
             rate = from_le (field 24 4 b);
             width = (from_le (field 34 2 b) + 7) div 8
         in if width = 0 \<or> channels = 0 then Inl WaveError
            else Inr (from_le (field 40 4 b) div (channels * width), rate)))"

definition sample_response :: response where
  "sample_response = \<lparr>status_code = 200, body_json = Some (JObj []), content = sample_wav\<rparr>"

text \<open>The last argument of a command line, the output file of both ffmpeg calls.\<close>

fun output_of :: "arg list \<Rightarrow> pystr" where
  "output_of [] = []"
| "output_of [Arg s] = s"
| "output_of [FloatStr f] = []"
| "output_of (x # y # ys) = output_of (y # ys)"

text \<open>
  A family of environments. The image directory lists \<open>names\<close>; the audio query is
  answered by \<open>query\<close>; a render call returns \<open>render_code\<close> and creates its output file
  when the code is 0; the concatenation returns \<open>concat_code\<close> and creates
  \<^verbatim>\<open>output.mp4\<close> when the code is 0; the synthesis is
  answered with \<open>sample_wav\<close>; every write succeeds, audio files are read by
  \<open>read_wave_header\<close>, and text is ASCII.
\<close>

definition sample_env :: "pystr list \<Rightarrow> exn + response \<Rightarrow> nat \<Rightarrow> nat \<Rightarrow> env" where
  "sample_env names query render_code concat_code =
     \<lparr>http_audio_query = (\<lambda>w text speaker. query),
      http_synthesis = (\<lambda>w j speaker. Inr sample_response),
      disk_write = (\<lambda>w p b. Written),
      wave_header = read_wave_header,
      run_process = (\<lambda>w argv.
         if argv = concat_args (str ''output.mp4'')
         then (Returned concat_code,
               if concat_code = 0 then (fs w)(str ''output.mp4'' \<mapsto> File []) else fs w)
         else (Returned render_code,
               if render_code = 0 then (fs w)(output_of argv \<mapsto> File []) else fs w)),
      listdir = (\<lambda>w d. names),
      decode_text = (\<lambda>b. Inr b)\<rparr>"

text \<open>
  A world with the image directory and the text file holding \<open>text\<close>, on top of the
  files \<open>others\<close>; nothing printed or called yet.
\<close>

definition sample_world :: "bytes \<Rightarrow> (pystr \<Rightarrow> node option) \<Rightarrow> world" where
  "sample_world text others =
     \<lparr>fs = others(str ''img'' \<mapsto> Dir, str ''t.txt'' \<mapsto> File text), out = [], calls = []\<rparr>"

text \<open>A world that holds just the files given.\<close>

definition world_of :: "(pystr \<Rightarrow> node option) \<Rightarrow> world" where
  "world_of f = \<lparr>fs = f, out = [], calls = []\<rparr>"

text \<open>The number that a string of decimal digits denotes.\<close>

definition digits_value :: "pystr \<Rightarrow> nat" where
  "digits_value ds = foldl (\<lambda>v d. 10 * v + (d - 48)) 0 ds"

text \<open>
  An assumption on the subprocesses, used for one theorem only: a process creates no
  file but its output file (the last argument of its command line), and that one only
  when it returns 0. It may change or remove files.
\<close>

definition creates_only_output :: "env \<Rightarrow> bool" where
  "creates_only_output E \<longleftrightarrow>
     (\<forall>w argv p. snd (run_process E w argv) p \<noteq> None \<longrightarrow>
        fs w p \<noteq> None \<or> (fst (run_process E w argv) = Returned 0 \<and> p = output_of argv))"

text \<open>
  What an earlier run leaves behind for a one-item input: the two directories and the
  audio of item 1, and, in \<open>stale_files\<close>, also the clip of item 1.
\<close>

definition cached_files :: "pystr \<Rightarrow> node option" where
  "cached_files =
     [str ''audio'' \<mapsto> Dir, str ''audio/line001.wav'' \<mapsto> File sample_wav,
      str ''clips'' \<mapsto> Dir]"

definition stale_files :: "pystr \<Rightarrow> node option" where
  "stale_files = cached_files(str ''clips/clip001.mp4'' \<mapsto> File [])"

text \<open>
  The world after the render call of item 1 (image \<^verbatim>\<open>img/a.png\<close>) returned 1 and left the
  files as they were, and a world after the manifest \<open>m\<close> was written.
\<close>

definition after_failed_render :: "world \<Rightarrow> world" where
  "after_failed_render w =
     print (MsgRenderFailed (str ''clips/clip001.mp4'') (CalledProcessError 1))
       (called (Subprocess (render_args [str ''img'', str ''a.png''] (audio_path 1)
                  (TrueDiv 2 24000) (clip_path 1))) w)"

definition with_manifest :: "bytes \<Rightarrow> world \<Rightarrow> world" where
  "with_manifest m w = w\<lparr>fs := (fs w)(str ''filelist.txt'' \<mapsto> File m)\<rparr>"

text \<open>The world after the render call of item 1 returned 0 and wrote the clip.\<close>

definition after_render :: "world \<Rightarrow> world" where
  "after_render w =
     called (Subprocess (render_args [str ''img'', str ''a.png''] (audio_path 1)
               (TrueDiv 2 24000) (clip_path 1)))
       (w\<lparr>fs := (fs w)(str ''clips/clip001.mp4'' \<mapsto> File [])\<rparr>)"

text \<open>
  Two variations of an environment: one in which the render of item 1 (the call whose
  output file is \<^verbatim>\<open>clips/clip001.mp4\<close>) returns 1 and creates nothing, and one in which
  ffmpeg is not installed, so that no subprocess can be started.
\<close>

definition first_render_fails :: "env \<Rightarrow> env" where
  "first_render_fails E =
     E\<lparr>run_process := (\<lambda>w argv.
          if output_of argv = str ''clips/clip001.mp4'' then (Returned 1, fs w)
          else run_process E w argv)\<rparr>"

definition without_ffmpeg :: "env \<Rightarrow> env" where
  "without_ffmpeg E = E\<lparr>run_process := (\<lambda>w argv. (NotLaunched FileNotFoundError, fs w))\<rparr>"

text \<open>
  The worlds that the steps of a run leave behind, with the sample command line and the
  sample service: after a directory was created; after the text of item \<open>k\<close> was
  synthesised (the two requests, the second with the query that carries the speed, and
  the audio file written); after the render call of item \<open>k\<close> returned 0 and wrote the
  clip; after it returned 1 and wrote nothing.
\<close>

definition made_dir :: "pypath \<Rightarrow> world \<Rightarrow> world" where
  "made_dir p w = w\<lparr>fs := (fs w)(path_str p \<mapsto> Dir)\<rparr>"

definition speed_query :: json where
  "speed_query = JObj [(str ''speedScale'', JFloat (FloatArg (str ''1.0'')))]"

definition after_synthesis :: "pystr \<Rightarrow> nat \<Rightarrow> world \<Rightarrow> world" where
  "after_synthesis text k w =
     (called (PostSynthesis speed_query 1) (called (PostAudioQuery text 1) w))
       \<lparr>fs := (fs w)(path_str (audio_path k) \<mapsto> File sample_wav)\<rparr>"

definition rendered :: "pypath \<Rightarrow> nat \<Rightarrow> world \<Rightarrow> world" where
  "rendered frame k w =
     called (Subprocess (render_args frame (audio_path k) (TrueDiv 2 24000) (clip_path k)))
       (w\<lparr>fs := (fs w)(path_str (clip_path k) \<mapsto> File [])\<rparr>)"

definition render_failed :: "pypath \<Rightarrow> nat \<Rightarrow> world \<Rightarrow> world" where
  "render_failed frame k w =
     print (MsgRenderFailed (path_str (clip_path k)) (CalledProcessError 1))
       (called (Subprocess (render_args frame (audio_path k) (TrueDiv 2 24000) (clip_path k))) w)"

text \<open>
  A first run on two images and a text of three blocks: the environment (the directory
  lists \<^verbatim>\<open>b.png\<close> before \<^verbatim>\<open>a.png\<close>; the service and ffmpeg succeed), the world at the
  start, and the world when the loop starts, after the warning and the two directories.
\<close>

definition run_env :: env where
  "run_env = sample_env [str ''b.png'', str ''a.png''] (Inr sample_response) 0 0"



text \<open>A first run on two images and a text of two blocks: the world at the start and
  the world when the loop starts.\<close>

definition pair_world :: world where
  "pair_world = sample_world (str ''hi'' @ [LF, LF] @ str ''yo'') Map.empty"

definition pair_start :: world where
  "pair_start = made_dir video_dir (made_dir audio_dir pair_world)"


section \<open>Properties\<close>

subsection \<open>Basic facts about the world\<close>

lemma calls_print [simp]: "calls (print m w) = calls w"
  by (simp add: print_def)

lemma fs_print [simp]: "fs (print m w) = fs w"
  by (simp add: print_def)

lemma out_print [simp]: "out (print m w) = out w @ [m]"
  by (simp add: print_def)

lemma calls_called [simp]: "calls (called c w) = calls w @ [c]"
  by (simp add: called_def)

lemma fs_called [simp]: "fs (called c w) = fs w"
  by (simp add: called_def)

lemma out_called [simp]: "out (called c w) = out w"
  by (simp add: called_def)

lemma exists_print [simp]: "exists (print m w) p = exists w p"
  by (simp add: exists_def)

lemma exists_called [simp]: "exists (called c w) p = exists w p"
  by (simp add: exists_def)

lemma calls_since_append [simp]: "calls w' = calls w @ cs \<Longrightarrow> calls_since w w' = cs"
  by (simp add: calls_since_def)

lemma out_since_append [simp]: "out w' = out w @ ms \<Longrightarrow> out_since w w' = ms"
  by (simp add: out_since_def)

lemma calls_write_file [simp]: "calls (snd (write_file E p d w)) = calls w"
  by (simp add: write_file_def split: write_outcome.splits)

lemma out_write_file [simp]: "out (snd (write_file E p d w)) = out w"
  by (simp add: write_file_def split: write_outcome.splits)

lemma calls_subprocess_run [simp]:
  "calls (snd (subprocess_run E argv w)) = calls w @ [Subprocess argv]"
  by (simp add: subprocess_run_def Let_def split: prod.splits proc.splits)

lemma out_subprocess_run [simp]: "out (snd (subprocess_run E argv w)) = out w"
  by (simp add: subprocess_run_def Let_def split: prod.splits proc.splits)

lemma calls_synthesize_try:
  "\<exists>cs. calls (snd (synthesize_try E t p s v w)) = calls w @ PostAudioQuery t s # cs \<and>
        (cs = [] \<or> (\<exists>j. cs = [PostSynthesis j s]))"
  by (auto simp: synthesize_try_def Let_def split: sum.splits option.splits)

lemma calls_synthesize_voice:
  "\<exists>cs. calls (snd (synthesize_voice E t p s v w)) = calls w @ PostAudioQuery t s # cs \<and>
        (cs = [] \<or> (\<exists>j. cs = [PostSynthesis j s]))"
proof -
  obtain r w' where r: "synthesize_try E t p s v w = (r, w')"
    by (cases "synthesize_try E t p s v w")
  from calls_synthesize_try[of E t p s v w] r
  show ?thesis
    by (cases r) (auto simp: synthesize_voice_def)
qed

subsection \<open>The manifest\<close>

lemma exists_cong_str: "path_str p = path_str q \<Longrightarrow> exists w p = exists w q"
  by (simp add: exists_def)

lemma manifest_line_inj: "manifest_line p = manifest_line q \<Longrightarrow> path_str p = path_str q"
  by (simp add: manifest_line_def)

lemma manifest_indices_set:
  "set (manifest_indices w n) = {i. 1 \<le> i \<and> i \<le> n \<and> exists w (clip_path i)}"
  by (auto simp: manifest_indices_def)

lemma manifest_indices_sorted: "sorted_wrt (<) (manifest_indices w n)"
  unfolding manifest_indices_def by (rule sorted_wrt_filter) (rule sorted_wrt_upt)

lemma manifest_entry_iff:
  assumes "1 \<le> i" "i \<le> n"
  shows "manifest_line (clip_path i) \<in> set (manifest_entries w n) \<longleftrightarrow> exists w (clip_path i)"
proof
  assume "manifest_line (clip_path i) \<in> set (manifest_entries w n)"
  then obtain j where j: "j \<in> set (manifest_indices w n)"
    and eq: "manifest_line (clip_path j) = manifest_line (clip_path i)"
    by (auto simp: manifest_entries_def)
  from j have "exists w (clip_path j)"
    by (simp add: manifest_indices_set)
  then show "exists w (clip_path i)"
    using exists_cong_str[OF manifest_line_inj[OF eq]] by simp
next
  assume "exists w (clip_path i)"
  with assms have "i \<in> set (manifest_indices w n)"
    by (simp add: manifest_indices_set)
  then show "manifest_line (clip_path i) \<in> set (manifest_entries w n)"
    by (auto simp: manifest_entries_def)
qed

subsection \<open>Evaluating paths\<close>

lemma digits_small: "n < 10 \<Longrightarrow> digits n = [48 + n]"
  by (simp add: digits.simps)

lemma replicate2: "replicate 2 x = [x, x]"
  by (simp add: numeral_2_eq_2)

lemma audio_path_1: "path_str (audio_path (Suc 0)) = str ''audio/line001.wav''"
  by (simp add: path_str_def audio_path_def audio_dir_def fmt03d_def digits_small str_def replicate2)

lemma path_str_single: "p \<noteq> [47] \<Longrightarrow> path_str [p] = p"
  by (simp add: path_str_def)

lemma clip_path_1: "path_str (clip_path (Suc 0)) = str ''clips/clip001.mp4''"
  by (simp add: path_str_def clip_path_def video_dir_def fmt03d_def digits_small str_def replicate2)

lemma clip_path_2: "path_str (clip_path 2) = str ''clips/clip002.mp4''"
  by (simp add: path_str_def clip_path_def video_dir_def fmt03d_def digits_small str_def replicate2)

lemma exists_world_of: "exists (world_of f) p \<longleftrightarrow> f (path_str p) \<noteq> None"
  by (simp add: exists_def world_of_def)

lemma upt_1_3: "[1..<2 + 1] = [Suc 0, 2]"
  by (simp add: upt_conv_Cons numeral_2_eq_2 numeral_3_eq_3)

subsection \<open>C4: the synthesis cache\<close>

lemma subprocess_runD:
  "subprocess_run E argv w = (r, w') \<Longrightarrow>
     calls w' = calls w @ [Subprocess argv] \<and> out w' = out w \<and> fs w' = snd (run_process E w argv)"
  by (auto simp: subprocess_run_def Let_def called_def split: prod.splits proc.splits if_splits)

lemma subprocess_run_returned:
  "run_process E w argv = (Returned c, fs') \<Longrightarrow>
     subprocess_run E argv w =
       (if c = 0 then None else Some (CalledProcessError c), called (Subprocess argv) (w\<lparr>fs := fs'\<rparr>))"
  by (simp add: subprocess_run_def)

lemma main_item_calls:
  assumes "i < length frames" "i < length lns"
  shows "\<exists>w1 rest.
           w1 = (if \<not> exists w (audio_path (i + 1))
                 then snd (synthesize_voice E (lns ! i) (path_str (audio_path (i + 1)))
                             (arg_speaker a) (arg_speed a) w)
                 else w) \<and>
           calls (snd (main_item E a frames lns i w)) = calls w1 @ rest \<and>
           (rest = [] \<or>
            (\<exists>d. rest = [Subprocess (render_args (frames ! i) (audio_path (i + 1)) d
                                        (clip_path (i + 1)))]))"
  using assms
  by (auto simp: main_item_def Let_def
      split: sum.splits prod.splits option.splits exn.splits dest!: subprocess_runD)

text \<open>
  Claim C4. For the item of index \<open>i\<close>, whose audio file is \<open>audio_path (i + 1)\<close>: when the
  file exists in the world in which the item starts, none of the calls made while the
  item is processed goes to the VOICEVOX service; when it does not exist, the first call
  made is the audio query for the item's text.
\<close>

theorem synthesis_cache:
  assumes "i < length frames" and "i < length lns"
  shows "(exists w (audio_path (i + 1)) \<longrightarrow>
            (\<forall>c\<in>set (calls_since w (snd (main_item E a frames lns i w))). \<not> is_tts c)) \<and>
         (\<not> exists w (audio_path (i + 1)) \<longrightarrow>
            (\<exists>cs. calls_since w (snd (main_item E a frames lns i w)) =
                    PostAudioQuery (lns ! i) (arg_speaker a) # cs))"
proof (intro conjI impI)
  assume ex: "exists w (audio_path (i + 1))"
  from main_item_calls[OF assms, of w E a] ex
  obtain rest where c: "calls (snd (main_item E a frames lns i w)) = calls w @ rest"
    and r: "rest = [] \<or>
            (\<exists>d. rest = [Subprocess (render_args (frames ! i) (audio_path (i + 1)) d
                                        (clip_path (i + 1)))])"
    by auto
  from c have "calls_since w (snd (main_item E a frames lns i w)) = rest"
    by (rule calls_since_append)
  with r show "\<forall>c\<in>set (calls_since w (snd (main_item E a frames lns i w))). \<not> is_tts c"
    by auto
next
  assume nex: "\<not> exists w (audio_path (i + 1))"
  let ?sv = "synthesize_voice E (lns ! i) (path_str (audio_path (i + 1)))
               (arg_speaker a) (arg_speed a) w"
  from main_item_calls[OF assms, of w E a] nex
  obtain rest where c: "calls (snd (main_item E a frames lns i w)) = calls (snd ?sv) @ rest"
    by auto
  from calls_synthesize_voice[of E "lns ! i" "path_str (audio_path (i + 1))" "arg_speaker a" "arg_speed a" w]
  obtain cs where "calls (snd ?sv) = calls w @ PostAudioQuery (lns ! i) (arg_speaker a) # cs"
    by blast
  with c have "calls (snd (main_item E a frames lns i w)) =
      calls w @ (PostAudioQuery (lns ! i) (arg_speaker a) # cs @ rest)"
    by simp
  then have "calls_since w (snd (main_item E a frames lns i w)) =
      PostAudioQuery (lns ! i) (arg_speaker a) # cs @ rest"
    by (rule calls_since_append)
  then show "\<exists>cs. calls_since w (snd (main_item E a frames lns i w)) =
                    PostAudioQuery (lns ! i) (arg_speaker a) # cs"
    by blast
qed

theorem synthesis_cache_witness:
  "exists (world_of [str ''audio/line001.wav'' \<mapsto> File []]) (audio_path (0 + 1)) \<and>
   filter is_tts
     (calls_since (world_of [str ''audio/line001.wav'' \<mapsto> File []])
        (snd (main_item (sample_env [] (Inr sample_response) 0 0) sample_args
               [[str ''img'', str ''a.png'']] [str ''hi''] 0
               (world_of [str ''audio/line001.wav'' \<mapsto> File []])))) = [] \<and>
   \<not> exists (world_of Map.empty) (audio_path (0 + 1)) \<and>
   (\<exists>cs. calls_since (world_of Map.empty)
           (snd (main_item (sample_env [] (Inr sample_response) 0 0) sample_args
                  [[str ''img'', str ''a.png'']] [str ''hi''] 0 (world_of Map.empty))) =
         PostAudioQuery (str ''hi'') 1 # cs)"
proof -
  let ?E = "sample_env [] (Inr sample_response) 0 0"
  let ?F = "[[str ''img'', str ''a.png'']]"
  let ?L = "[str ''hi'']"
  let ?w1 = "world_of [str ''audio/line001.wav'' \<mapsto> File []]"
  let ?w0 = "world_of Map.empty"
  have r: "(0::nat) < length ?F" "(0::nat) < length ?L"
    by simp_all
  have e1: "exists ?w1 (audio_path (0 + 1))"
    by (simp add: exists_world_of audio_path_1)
  have e0: "\<not> exists ?w0 (audio_path (0 + 1))"
    by (simp add: exists_world_of)
  from synthesis_cache[OF r, of ?w1 ?E sample_args] e1
  have "\<forall>c\<in>set (calls_since ?w1 (snd (main_item ?E sample_args ?F ?L 0 ?w1))). \<not> is_tts c"
    by blast
  then have a: "filter is_tts (calls_since ?w1 (snd (main_item ?E sample_args ?F ?L 0 ?w1))) = []"
    by (simp add: filter_empty_conv)
  from synthesis_cache[OF r, of ?w0 ?E sample_args] e0
  have b: "\<exists>cs. calls_since ?w0 (snd (main_item ?E sample_args ?F ?L 0 ?w0)) =
                PostAudioQuery (?L ! 0) (arg_speaker sample_args) # cs"
    by blast
  have "arg_speaker sample_args = 1"
    by (simp add: sample_args_def)
  with b have b': "\<exists>cs. calls_since ?w0 (snd (main_item ?E sample_args ?F ?L 0 ?w0)) =
                PostAudioQuery (str ''hi'') 1 # cs"
    by simp
  from e1 a e0 b' show ?thesis
    by blast
qed

subsection \<open>Running main\<close>

lemma main_no_images:
  "is_dir w (arg_images a) \<Longrightarrow> exists w (arg_lines a) \<Longrightarrow>
   image_frames E w (arg_images a) = [] \<Longrightarrow> main E a w = (Exit 1, print MsgNoImages w)"
  by (simp add: main_def)

lemma main_proceeds:
  "is_dir w (arg_images a) \<Longrightarrow> exists w (arg_lines a) \<Longrightarrow>
   image_frames E w (arg_images a) = frames \<Longrightarrow> frames \<noteq> [] \<Longrightarrow>
   read_lines_with_paragraphs E (arg_lines a) w = Inr lns \<Longrightarrow>
   main E a w = main_run E a frames lns (warn_mismatch frames lns w)"
  by (simp add: main_def)


lemma calls_warn_mismatch [simp]: "calls (warn_mismatch frames lns w) = calls w"
  by (simp add: warn_mismatch_def Let_def)

lemma fs_warn_mismatch [simp]: "fs (warn_mismatch frames lns w) = fs w"
  by (simp add: warn_mismatch_def Let_def)

lemma mkdirD: "mkdir p w = Inr w' \<Longrightarrow> calls w' = calls w \<and> out w' = out w"
  by (auto simp: mkdir_def split: option.splits node.splits)

lemma write_fileD: "write_file E p d w = (r, w') \<Longrightarrow> calls w' = calls w \<and> out w' = out w"
  by (auto simp: write_file_def split: write_outcome.splits)


lemma main_concatD:
  "main_concat E a w = (st, w') \<Longrightarrow>
     calls w' = calls w @ [Subprocess (concat_args (arg_output a))] \<and>
     (st = Exit 0 \<or> (\<exists>e. st = Traceback e)) \<and>
     (\<exists>ms. out w' = out w @ ms)"
  by (auto simp: main_concat_def split: prod.splits option.splits exn.splits dest!: subprocess_runD)

lemma main_concat_failed:
  "run_process E w (concat_args (arg_output a)) = (Returned c, fs') \<Longrightarrow> c \<noteq> 0 \<Longrightarrow>
   main_concat E a w =
     (Exit 0, print (MsgDone (arg_output a)) (print (MsgConcatFailed (CalledProcessError c))
        (called (Subprocess (concat_args (arg_output a))) (w\<lparr>fs := fs'\<rparr>))))"
  by (simp add: main_concat_def subprocess_run_returned)

lemma main_concat_ok:
  "run_process E w (concat_args (arg_output a)) = (Returned 0, fs') \<Longrightarrow>
   main_concat E a w =
     (Exit 0, print (MsgDone (arg_output a))
        (called (Subprocess (concat_args (arg_output a))) (w\<lparr>fs := fs'\<rparr>)))"
  by (simp add: main_concat_def subprocess_run_returned)

lemma manifest_entries_0 [simp]: "manifest_entries w 0 = []"
  by (simp add: manifest_entries_def manifest_indices_def)

lemma main_run_no_lines:
  "main_run E a frames [] w =
     (case mkdir audio_dir w of
        Inl e \<Rightarrow> (Traceback e, w)
      | Inr w1 \<Rightarrow>
          (case mkdir video_dir w1 of
             Inl e \<Rightarrow> (Traceback e, w1)
           | Inr w2 \<Rightarrow>
               (case write_file E (str ''filelist.txt'') [] w2 of
                  (Some e, w4) \<Rightarrow> (Traceback e, w4)
                | (None, w4) \<Rightarrow> main_concat E a w4)))"
  by (simp add: main_run_def item_count_def main_manifest_def split: sum.splits)

subsection \<open>Evaluating the sample inputs\<close>

lemma sample_is_dir: "is_dir (sample_world t others) (arg_images sample_args)"
  by (simp add: is_dir_def sample_world_def sample_args_def path_str_def str_def)

lemma sample_exists: "exists (sample_world t others) (arg_lines sample_args)"
  by (simp add: exists_def sample_world_def sample_args_def path_str_def str_def)

lemma sample_read:
  "read_lines_with_paragraphs (sample_env ns q r c) (arg_lines sample_args) (sample_world t others) =
     Inr (paragraphs t)"
  by (simp add: read_lines_with_paragraphs_def read_bytes_def sample_world_def sample_env_def
      sample_args_def path_str_def str_def)

lemma suffix_a_png: "suffix [str ''img'', str ''a.png''] = str ''.png''"
  by (simp add: suffix_def path_name_def rfind_def str_def Let_def)

lemma suffix_notes: "suffix [str ''img'', str ''notes.txt''] = str ''.txt''"
  by (simp add: suffix_def path_name_def rfind_def str_def Let_def)

lemma sample_frames_a:
  "image_frames (sample_env [str ''a.png''] q r c) w (arg_images sample_args) =
     [[str ''img'', str ''a.png'']]"
  apply (simp add: image_frames_def iterdir_def sample_env_def sample_args_def suffix_a_png)
  apply (simp add: lower_def image_exts_def str_def)
  done

lemma sample_frames_notes:
  "image_frames (sample_env [str ''notes.txt''] q r c) w (arg_images sample_args) = []"
  apply (simp add: image_frames_def iterdir_def sample_env_def sample_args_def suffix_notes)
  apply (simp add: lower_def image_exts_def str_def)
  done

lemma paragraphs_Nil: "paragraphs [] = []"
  by (simp add: paragraphs_def strip_def lstrip_def rstrip_def)

lemma paragraphs_hi: "paragraphs (str ''hi'') = [str ''hi'']"
  by (simp add: paragraphs_def strip_def lstrip_def rstrip_def isspace_def str_def)

lemma sample_main_no_lines:
  "main (sample_env [str ''a.png''] q r 1) sample_args (sample_world [] Map.empty) =
     (Exit 0,
      \<lparr>fs = [str ''img'' \<mapsto> Dir, str ''t.txt'' \<mapsto> File [], str ''audio'' \<mapsto> Dir,
             str ''clips'' \<mapsto> Dir, str ''filelist.txt'' \<mapsto> File []],
       out = [MsgLinesShort 1 0, MsgConcatFailed (CalledProcessError 1), MsgDone (str ''output.mp4'')],
       calls = [Subprocess (concat_args (str ''output.mp4''))]\<rparr>)"
proof -
  let ?E = "sample_env [str ''a.png''] q r 1"
  let ?W = "sample_world [] Map.empty"
  let ?F = "[[str ''img'', str ''a.png'']]"
  have m: "main ?E sample_args ?W = main_run ?E sample_args ?F [] (warn_mismatch ?F [] ?W)"
    by (rule main_proceeds) (simp_all add: sample_is_dir sample_exists sample_frames_a sample_read paragraphs_Nil)
  have w0: "warn_mismatch ?F [] ?W =
      \<lparr>fs = [str ''img'' \<mapsto> Dir, str ''t.txt'' \<mapsto> File []], out = [MsgLinesShort 1 0], calls = []\<rparr>"
    by (simp add: warn_mismatch_def item_count_def print_def sample_world_def)
  have a: "path_str audio_dir = str ''audio''" "path_str video_dir = str ''clips''"
    by (simp_all add: audio_dir_def video_dir_def path_str_def str_def)
  have ao: "arg_output sample_args = str ''output.mp4''"
    by (simp add: sample_args_def)
  show ?thesis
    unfolding m w0 main_run_no_lines
    by (simp add: mkdir_def a write_file_def sample_env_def main_concat_def subprocess_run_def
        called_def print_def ao str_def)
qed

subsection \<open>A second run: cached audio, a render that fails\<close>

lemma warn_mismatch_same: "length frames = length lns \<Longrightarrow> warn_mismatch frames lns w = w"
  by (simp add: warn_mismatch_def item_count_def)

lemma main_run_reaches_concat:
  "mkdir audio_dir w0 = Inr w1 \<Longrightarrow> mkdir video_dir w1 = Inr w2 \<Longrightarrow>
   main_loop E a frames lns [0..<item_count frames lns] w2 = (None, w3) \<Longrightarrow>
   main_manifest E (item_count frames lns) w3 = (None, w) \<Longrightarrow>
   main_run E a frames lns w0 = main_concat E a w"
  by (simp add: main_run_def)

lemma main_item_cached:
  assumes "i < length frames" and "i < length lns"
    and "exists w (audio_path (i + 1))"
    and "get_wav_duration E (audio_path (i + 1)) w = Inr d"
    and "run_process E w (render_args (frames ! i) (audio_path (i + 1)) d (clip_path (i + 1))) =
           (Returned c, fs')"
  shows "main_item E a frames lns i w =
     (None,
      if c = 0
      then called (Subprocess (render_args (frames ! i) (audio_path (i + 1)) d (clip_path (i + 1))))
             (w\<lparr>fs := fs'\<rparr>)
      else print (MsgRenderFailed (path_str (clip_path (i + 1))) (CalledProcessError c))
             (called (Subprocess (render_args (frames ! i) (audio_path (i + 1)) d (clip_path (i + 1))))
                (w\<lparr>fs := fs'\<rparr>)))"
  using assms by (simp add: main_item_def Let_def subprocess_run_returned)

lemma output_of_render [simp]: "output_of (render_args f au d cl) = path_str cl"
  by (simp add: render_args_def)

lemma render_ne_concat [simp]: "render_args f au d cl \<noteq> concat_args output"
  by (simp add: render_args_def concat_args_def str_def)

lemma sample_run_render:
  "run_process (sample_env ns q r c) w (render_args f au d cl) =
     (Returned r, if r = 0 then (fs w)(path_str cl \<mapsto> File []) else fs w)"
  by (simp add: sample_env_def)

lemma sample_run_concat:
  "run_process (sample_env ns q r c) w (concat_args (arg_output sample_args)) =
     (Returned c, if c = 0 then (fs w)(str ''output.mp4'' \<mapsto> File []) else fs w)"
  by (simp add: sample_env_def sample_args_def)

lemma read_sample_wav: "read_wave_header sample_wav = Inr (2, 24000)"
  by (simp add: read_wave_header_def sample_wav_def wav_file_def field_def from_le_def le16_def
      le32_def str_def)

lemma sample_duration:
  "fs w (path_str p) = Some (File sample_wav) \<Longrightarrow>
   get_wav_duration (sample_env ns q r c) p w = Inr (TrueDiv 2 24000)"
  by (simp add: get_wav_duration_def read_bytes_def sample_env_def read_sample_wav)

lemma sample_write:
  "write_file (sample_env ns q r c) p d w = (None, w\<lparr>fs := (fs w)(p \<mapsto> File d)\<rparr>)"
  by (simp add: write_file_def sample_env_def)

lemma fs_sample_world:
  "fs (sample_world t others) p =
     (if p = str ''t.txt'' then Some (File t) else if p = str ''img'' then Some Dir else others p)"
  by (simp add: sample_world_def)

lemma cached_lookup:
  "cached_files (str ''audio'') = Some Dir"
  "cached_files (str ''clips'') = Some Dir"
  "cached_files (str ''audio/line001.wav'') = Some (File sample_wav)"
  "cached_files (str ''clips/clip001.mp4'') = None"
  by (simp_all add: cached_files_def str_def)

lemma stale_lookup:
  "stale_files (str ''audio'') = Some Dir"
  "stale_files (str ''clips'') = Some Dir"
  "stale_files (str ''audio/line001.wav'') = Some (File sample_wav)"
  "stale_files (str ''clips/clip001.mp4'') = Some (File [])"
  by (simp_all add: stale_files_def cached_files_def str_def)

lemma str_ne:
  "str ''audio'' \<noteq> str ''t.txt''" "str ''audio'' \<noteq> str ''img''"
  "str ''clips'' \<noteq> str ''t.txt''" "str ''clips'' \<noteq> str ''img''"
  "str ''audio/line001.wav'' \<noteq> str ''t.txt''" "str ''audio/line001.wav'' \<noteq> str ''img''"
  "str ''clips/clip001.mp4'' \<noteq> str ''t.txt''" "str ''clips/clip001.mp4'' \<noteq> str ''img''"
  "str ''clips/clip001.mp4'' \<noteq> str ''filelist.txt''"
  by (simp_all add: str_def)

lemma dirs_str: "path_str audio_dir = str ''audio''" "path_str video_dir = str ''clips''"
  by (simp_all add: audio_dir_def video_dir_def path_str_def str_def)

lemma mkdir_present: "fs w (path_str p) = Some Dir \<Longrightarrow> mkdir p w = Inr w"
  by (simp add: mkdir_def)

lemma manifest_entries_1:
  "manifest_entries w (Suc 0) =
     (if exists w (clip_path (Suc 0)) then [manifest_line (clip_path (Suc 0))] else [])"
  by (simp add: manifest_entries_def manifest_indices_def)

lemma rerun_item:
  assumes o: "others (str ''audio/line001.wav'') = Some (File sample_wav)"
  shows "main_item (sample_env ns q 1 c) sample_args [[str ''img'', str ''a.png'']] [str ''hi''] 0
           (sample_world t others) = (None, after_failed_render (sample_world t others))"
proof -
  let ?W = "sample_world t others"
  let ?E = "sample_env ns q 1 c"
  have f: "fs ?W (path_str (audio_path (0 + 1))) = Some (File sample_wav)"
    using o by (simp add: fs_sample_world audio_path_1 str_ne)
  then have e: "exists ?W (audio_path (0 + 1))"
    by (simp add: exists_def)
  have d: "get_wav_duration ?E (audio_path (0 + 1)) ?W = Inr (TrueDiv 2 24000)"
    using f by (rule sample_duration)
  have p: "run_process ?E ?W (render_args ([[str ''img'', str ''a.png'']] ! 0) (audio_path (0 + 1))
              (TrueDiv 2 24000) (clip_path (0 + 1))) = (Returned 1, fs ?W)"
    by (simp add: sample_run_render)
  have "main_item ?E sample_args [[str ''img'', str ''a.png'']] [str ''hi''] 0 ?W =
     (None,
      if (1::nat) = 0
      then called (Subprocess (render_args ([[str ''img'', str ''a.png'']] ! 0) (audio_path (0 + 1)) (TrueDiv 2 24000) (clip_path (0 + 1))))
             (?W\<lparr>fs := fs ?W\<rparr>)
      else print (MsgRenderFailed (path_str (clip_path (0 + 1))) (CalledProcessError 1))
             (called (Subprocess (render_args ([[str ''img'', str ''a.png'']] ! 0) (audio_path (0 + 1)) (TrueDiv 2 24000) (clip_path (0 + 1))))
                (?W\<lparr>fs := fs ?W\<rparr>)))"
    by (rule main_item_cached[OF _ _ e d p]) simp_all
  then show ?thesis
    by (simp add: clip_path_1 after_failed_render_def)
qed

lemma rerun_loop:
  assumes o: "others (str ''audio/line001.wav'') = Some (File sample_wav)"
  shows "main_loop (sample_env ns q 1 c) sample_args [[str ''img'', str ''a.png'']] [str ''hi'']
           [0..<item_count [[str ''img'', str ''a.png'']] [str ''hi'']] (sample_world t others) =
         (None, after_failed_render (sample_world t others))"
  using rerun_item[of others ns q c t, OF o] by (simp add: item_count_def)

lemma rerun_exists_clip:
  "exists (after_failed_render (sample_world t others)) (clip_path 1) \<longleftrightarrow>
     others (str ''clips/clip001.mp4'') \<noteq> None"
  by (simp add: after_failed_render_def exists_def clip_path_1 fs_sample_world str_ne)

lemma rerun_entries:
  "manifest_entries (after_failed_render (sample_world t others))
     (item_count [[str ''img'', str ''a.png'']] [str ''hi'']) =
   (if others (str ''clips/clip001.mp4'') = None then [] else [manifest_line (clip_path 1)])"
  using rerun_exists_clip[of t others]
  by (simp add: item_count_def manifest_entries_1)

lemma rerun_manifest:
  "main_manifest (sample_env ns q r c) (item_count [[str ''img'', str ''a.png'']] [str ''hi''])
     (after_failed_render (sample_world t others)) =
   (None, with_manifest (if others (str ''clips/clip001.mp4'') = None then []
                         else manifest_line (clip_path 1))
            (after_failed_render (sample_world t others)))"
  by (simp add: main_manifest_def sample_write rerun_entries with_manifest_def)

lemma rerun_dirs:
  assumes "others (str ''audio'') = Some Dir" and "others (str ''clips'') = Some Dir"
  shows "mkdir audio_dir (sample_world t others) = Inr (sample_world t others)"
    and "mkdir video_dir (sample_world t others) = Inr (sample_world t others)"
  using assms by (simp_all add: mkdir_present dirs_str fs_sample_world str_ne)

lemma rerun_main_run:
  assumes a: "others (str ''audio'') = Some Dir"
    and c: "others (str ''clips'') = Some Dir"
    and l: "others (str ''audio/line001.wav'') = Some (File sample_wav)"
  shows "main (sample_env [str ''a.png''] q 1 c') sample_args (sample_world (str ''hi'') others) =
     main_concat (sample_env [str ''a.png''] q 1 c') sample_args
       (with_manifest (if others (str ''clips/clip001.mp4'') = None then []
                       else manifest_line (clip_path 1))
          (after_failed_render (sample_world (str ''hi'') others)))"
proof -
  let ?E = "sample_env [str ''a.png''] q 1 c'"
  let ?W = "sample_world (str ''hi'') others"
  let ?F = "[[str ''img'', str ''a.png'']]"
  let ?L = "[str ''hi'']"
  have m: "main ?E sample_args ?W = main_run ?E sample_args ?F ?L (warn_mismatch ?F ?L ?W)"
    by (rule main_proceeds)
      (simp_all add: sample_is_dir sample_exists sample_frames_a sample_read paragraphs_hi)
  have w0: "warn_mismatch ?F ?L ?W = ?W"
    by (simp add: warn_mismatch_same)
  show ?thesis
    unfolding m w0
    by (rule main_run_reaches_concat[OF rerun_dirs[OF a c] rerun_loop[of others, OF l] rerun_manifest])
qed

lemma rerun_main:
  assumes a: "others (str ''audio'') = Some Dir"
    and c: "others (str ''clips'') = Some Dir"
    and l: "others (str ''audio/line001.wav'') = Some (File sample_wav)"
  shows "fst (main (sample_env [str ''a.png''] q 1 1) sample_args
                (sample_world (str ''hi'') others)) = Exit 0 \<and>
         out (snd (main (sample_env [str ''a.png''] q 1 1) sample_args
                (sample_world (str ''hi'') others))) =
           [MsgRenderFailed (str ''clips/clip001.mp4'') (CalledProcessError 1),
            MsgConcatFailed (CalledProcessError 1), MsgDone (str ''output.mp4'')] \<and>
         fs (snd (main (sample_env [str ''a.png''] q 1 1) sample_args
                (sample_world (str ''hi'') others))) (str ''filelist.txt'') =
           Some (File (if others (str ''clips/clip001.mp4'') = None then []
                       else manifest_line (clip_path 1)))"
proof -
  let ?E = "sample_env [str ''a.png''] q 1 1"
  let ?W4 = "with_manifest (if others (str ''clips/clip001.mp4'') = None then []
                       else manifest_line (clip_path 1))
          (after_failed_render (sample_world (str ''hi'') others))"
  have p: "run_process ?E ?W4 (concat_args (arg_output sample_args)) = (Returned 1, fs ?W4)"
    by (simp add: sample_run_concat)
  have ao: "arg_output sample_args = str ''output.mp4''"
    by (simp add: sample_args_def)
  have res: "main ?E sample_args (sample_world (str ''hi'') others) =
      (Exit 0, print (MsgDone (arg_output sample_args))
         (print (MsgConcatFailed (CalledProcessError 1))
            (called (Subprocess (concat_args (arg_output sample_args))) (?W4\<lparr>fs := fs ?W4\<rparr>))))"
    unfolding rerun_main_run[OF a c l] by (rule main_concat_failed[OF p]) simp
  show ?thesis
    unfolding res
    by (simp add: ao with_manifest_def after_failed_render_def sample_world_def)
qed

subsection \<open>C1: a synthesis that fails\<close>

lemma main_item_query_fails:
  assumes "i < length frames" and "i < length lns"
    and "\<not> exists w (audio_path (i + 1))"
    and "http_audio_query E w (lns ! i) (arg_speaker a) = Inl e"
  shows "main_item E a frames lns i w =
     (Some FileNotFoundError,
      print (MsgSynthFailed (take 30 (lns ! i)) e)
        (called (PostAudioQuery (lns ! i) (arg_speaker a)) w))"
  using assms
  by (simp add: main_item_def Let_def synthesize_voice_def synthesize_try_def
      get_wav_duration_def read_bytes_def exists_def)

lemma main_run_loop_raises:
  "mkdir audio_dir w0 = Inr w1 \<Longrightarrow> mkdir video_dir w1 = Inr w2 \<Longrightarrow>
   main_loop E a frames lns [0..<item_count frames lns] w2 = (Some e, w3) \<Longrightarrow>
   main_run E a frames lns w0 = (Traceback e, w3)"
  by (simp add: main_run_def)

lemma suffix_b_png: "suffix [str ''img'', str ''b.png''] = str ''.png''"
  by (simp add: suffix_def path_name_def rfind_def str_def Let_def)

lemma sample_frames_ab:
  "image_frames (sample_env [str ''b.png'', str ''a.png''] q r c) w (arg_images sample_args) =
     [[str ''img'', str ''a.png''], [str ''img'', str ''b.png'']]"
  apply (simp add: image_frames_def iterdir_def sample_env_def sample_args_def suffix_a_png suffix_b_png)
  apply (simp add: lower_def image_exts_def str_def)
  done

lemma paragraphs_two:
  "paragraphs (str ''abcdefghijklmnopqrstuvwxyz012345'' @ [LF, LF] @ str ''yo'') =
     [str ''abcdefghijklmnopqrstuvwxyz012345'', str ''yo'']"
  by (simp add: paragraphs_def strip_def lstrip_def rstrip_def isspace_def str_def)

lemma mkdir_absent:
  "fs w (path_str p) = None \<Longrightarrow> mkdir p w = Inr (w\<lparr>fs := (fs w)(path_str p \<mapsto> Dir)\<rparr>)"
  by (simp add: mkdir_def)

text \<open>
  Claim C1 (failure isolation) at a concrete input: two images, a text of two
  paragraphs, no audio on disk, and a VOICEVOX service that cannot be reached. The
  audio query for item 1 raises; \<open>synthesize_voice\<close> prints the warning with the first 30
  characters of the text and returns False; line 93 drops that result, and line 95 opens
  the audio file that was never written. The \<open>FileNotFoundError\<close> is caught nowhere: the
  run ends with a traceback, item 2 is never attempted (no request for its text, no
  render call), no manifest is written and no concatenation is run.
\<close>

theorem synthesis_failure_aborts_run:
  "main (sample_env [str ''b.png'', str ''a.png''] (Inl RequestException) 0 0) sample_args
     (sample_world (str ''abcdefghijklmnopqrstuvwxyz012345'' @ [LF, LF] @ str ''yo'') Map.empty) =
   (Traceback FileNotFoundError,
    \<lparr>fs = [str ''img'' \<mapsto> Dir,
           str ''t.txt'' \<mapsto> File (str ''abcdefghijklmnopqrstuvwxyz012345'' @ [LF, LF] @ str ''yo''),
           str ''audio'' \<mapsto> Dir, str ''clips'' \<mapsto> Dir],
     out = [MsgSynthFailed (str ''abcdefghijklmnopqrstuvwxyz0123'') RequestException],
     calls = [PostAudioQuery (str ''abcdefghijklmnopqrstuvwxyz012345'') 1]\<rparr>)"
proof -
  let ?T = "str ''abcdefghijklmnopqrstuvwxyz012345'' @ [LF, LF] @ str ''yo''"
  let ?E = "sample_env [str ''b.png'', str ''a.png''] (Inl RequestException) 0 0"
  let ?W = "sample_world ?T Map.empty"
  let ?F = "[[str ''img'', str ''a.png''], [str ''img'', str ''b.png'']]"
  let ?L = "[str ''abcdefghijklmnopqrstuvwxyz012345'', str ''yo'']"
  let ?W1 = "?W\<lparr>fs := (fs ?W)(path_str audio_dir \<mapsto> Dir)\<rparr>"
  let ?W2 = "?W1\<lparr>fs := (fs ?W1)(path_str video_dir \<mapsto> Dir)\<rparr>"
  let ?W3 = "print (MsgSynthFailed (take 30 (?L ! 0)) RequestException)
        (called (PostAudioQuery (?L ! 0) (arg_speaker sample_args)) ?W2)"
  have rd: "read_lines_with_paragraphs ?E (arg_lines sample_args) ?W = Inr ?L"
    by (simp only: sample_read paragraphs_two)
  have m: "main ?E sample_args ?W = main_run ?E sample_args ?F ?L (warn_mismatch ?F ?L ?W)"
    by (rule main_proceeds[OF sample_is_dir sample_exists sample_frames_ab _ rd]) simp
  have w0: "warn_mismatch ?F ?L ?W = ?W"
    by (simp add: warn_mismatch_same)
  have d1: "mkdir audio_dir ?W = Inr ?W1"
    by (rule mkdir_absent) (simp add: dirs_str fs_sample_world str_ne)
  have d2: "mkdir video_dir ?W1 = Inr ?W2"
    by (rule mkdir_absent) (simp add: dirs_str fs_sample_world str_def)
  have ne: "\<not> exists ?W2 (audio_path (0 + 1))"
    by (simp add: exists_def audio_path_1 dirs_str fs_sample_world str_def)
  have q: "http_audio_query ?E ?W2 (?L ! 0) (arg_speaker sample_args) = Inl RequestException"
    by (simp add: sample_env_def)
  have it: "main_item ?E sample_args ?F ?L 0 ?W2 = (Some FileNotFoundError, ?W3)"
    by (rule main_item_query_fails[OF _ _ ne q]) simp_all
  have n: "[0..<item_count ?F ?L] = [0, Suc 0]"
    by (simp add: item_count_def numeral_2_eq_2)
  have lp: "main_loop ?E sample_args ?F ?L [0..<item_count ?F ?L] ?W2 = (Some FileNotFoundError, ?W3)"
    unfolding n by (simp only: main_loop.simps it prod.case option.case)
  have r: "main ?E sample_args ?W = (Traceback FileNotFoundError, ?W3)"
    unfolding m w0 by (rule main_run_loop_raises[OF d1 d2 lp])
  show ?thesis
    unfolding r
    by (simp add: print_def called_def sample_world_def dirs_str sample_args_def str_def)
qed

text \<open>What the shell and the service see of that run.\<close>

theorem synthesis_failure_aborts_run_witness:
  "exit_code (fst (main (sample_env [str ''b.png'', str ''a.png''] (Inl RequestException) 0 0)
                    sample_args
                    (sample_world (str ''abcdefghijklmnopqrstuvwxyz012345'' @ [LF, LF] @ str ''yo'')
                       Map.empty))) = 1 \<and>
   calls (snd (main (sample_env [str ''b.png'', str ''a.png''] (Inl RequestException) 0 0)
                 sample_args
                 (sample_world (str ''abcdefghijklmnopqrstuvwxyz012345'' @ [LF, LF] @ str ''yo'')
                    Map.empty))) =
     [PostAudioQuery (str ''abcdefghijklmnopqrstuvwxyz012345'') 1] \<and>
   fs (snd (main (sample_env [str ''b.png'', str ''a.png''] (Inl RequestException) 0 0)
              sample_args
              (sample_world (str ''abcdefghijklmnopqrstuvwxyz012345'' @ [LF, LF] @ str ''yo'')
                 Map.empty))) (str ''filelist.txt'') = None"
  unfolding synthesis_failure_aborts_run
  by (simp add: str_def)

subsection \<open>The calls and the output of a run\<close>

lemma is_render_of_render [simp]:
  "is_render_of frame k (render_args frame (audio_path k) d (clip_path k))"
  by (simp add: is_render_of_def render_args_def)




lemma out_synthesize_try [simp]: "out (snd (synthesize_try E t p s v w)) = out w"
  by (simp add: synthesize_try_def Let_def split: sum.splits option.splits)






lemma paragraphs_hi_yo: "paragraphs (str ''hi'' @ [LF, LF] @ str ''yo'') = [str ''hi'', str ''yo'']"
  by (simp add: paragraphs_def strip_def lstrip_def rstrip_def isspace_def str_def)

subsection \<open>What the loop does to the clips\<close>

lemma digits_value_snoc: "digits_value (ds @ [d]) = 10 * digits_value ds + (d - 48)"
  by (simp add: digits_value_def)

lemma digits_value_digits: "digits_value (digits n) = n"
proof (induction n rule: digits.induct)
  case (1 n)
  show ?case
  proof (cases "n < 10")
    case True
    then show ?thesis
      by (simp add: digits.simps[of n] digits_value_def)
  next
    case False
    with 1 have "digits_value (digits (n div 10)) = n div 10"
      by simp
    with False show ?thesis
      by (simp add: digits.simps[of n] digits_value_snoc)
  qed
qed

lemma foldl_zeros: "foldl (\<lambda>v d. 10 * v + (d - 48)) 0 (replicate k 48) = (0::nat)"
  by (induction k) simp_all

lemma digits_value_fmt03d: "digits_value (fmt03d n) = n"
  using digits_value_digits[of n]
  by (simp add: fmt03d_def digits_value_def foldl_zeros)

lemma fmt03d_inj: "fmt03d i = fmt03d j \<Longrightarrow> i = j"
  by (metis digits_value_fmt03d)

lemma path_str_two: "d \<noteq> [47] \<Longrightarrow> path_str [d, n] = d @ [47] @ n"
  by (simp add: path_str_def)

lemma clip_path_str: "path_str (clip_path k) = str ''clips/clip'' @ fmt03d k @ str ''.mp4''"
  by (simp add: clip_path_def video_dir_def path_str_def str_def)

lemma audio_path_str: "path_str (audio_path k) = str ''audio/line'' @ fmt03d k @ str ''.wav''"
  by (simp add: audio_path_def audio_dir_def path_str_def str_def)

lemma clip_path_inj: "path_str (clip_path i) = path_str (clip_path j) \<Longrightarrow> i = j"
  by (simp add: clip_path_str fmt03d_inj)

lemma audio_ne_clip: "path_str (audio_path j) \<noteq> path_str (clip_path i)"
  by (simp add: clip_path_str audio_path_str str_def)

lemma fs_write_file: "q \<noteq> p \<Longrightarrow> fs (snd (write_file E p d w)) q = fs w q"
  by (simp add: write_file_def split: write_outcome.splits)

lemma fs_synthesize_try: "q \<noteq> p \<Longrightarrow> fs (snd (synthesize_try E t p s v w)) q = fs w q"
  by (simp add: synthesize_try_def Let_def fs_write_file split: sum.splits option.splits)

lemma fs_synthesize_voice: "q \<noteq> p \<Longrightarrow> fs (snd (synthesize_voice E t p s v w)) q = fs w q"
proof -
  assume ne: "q \<noteq> p"
  obtain r w' where r: "synthesize_try E t p s v w = (r, w')"
    by (cases "synthesize_try E t p s v w")
  from fs_synthesize_try[OF ne, of E t s v w] r have "fs w' q = fs w q"
    by simp
  with r show ?thesis
    by (cases r) (simp_all add: synthesize_voice_def)
qed

lemma out_synthesize_voice_cases:
  "out (snd (synthesize_voice E t p s v w)) = out w \<or>
   (\<exists>e. out (snd (synthesize_voice E t p s v w)) = out w @ [MsgSynthFailed (take 30 t) e])"
proof -
  obtain r w' where r: "synthesize_try E t p s v w = (r, w')"
    by (cases "synthesize_try E t p s v w")
  from out_synthesize_try[of E t p s v w] r have "out w' = out w"
    by simp
  with r show ?thesis
    by (cases r) (simp_all add: synthesize_voice_def)
qed

lemma main_item_effect:
  assumes tools: "creates_only_output E"
    and r: "i < length frames" "i < length lns"
    and it: "main_item E a frames lns i w = (None, w')"
  shows "\<exists>ms. out w' = out w @ ms \<and>
           (\<forall>q e. MsgRenderFailed q e \<in> set ms \<longrightarrow> q = path_str (clip_path (i + 1))) \<and>
           (\<forall>k. fs w' (path_str (clip_path k)) \<noteq> None \<longrightarrow>
                fs w (path_str (clip_path k)) \<noteq> None \<or>
                (k = i + 1 \<and> (\<forall>q e. MsgRenderFailed q e \<notin> set ms)))"
proof -
  define audio where "audio = audio_path (i + 1)"
  define clip where "clip = clip_path (i + 1)"
  define w1 where "w1 =
    (if \<not> exists w audio
     then snd (synthesize_voice E (lns ! i) (path_str audio) (arg_speaker a) (arg_speed a) w)
     else w)"
  have unf: "main_item E a frames lns i w =
      (case get_wav_duration E audio w1 of
         Inl e \<Rightarrow> (Some e, w1)
       | Inr duration \<Rightarrow>
           (case subprocess_run E (render_args (frames ! i) audio duration clip) w1 of
              (None, w2) \<Rightarrow> (None, w2)
            | (Some (CalledProcessError c), w2) \<Rightarrow>
                (None, print (MsgRenderFailed (path_str clip) (CalledProcessError c)) w2)
            | (Some e, w2) \<Rightarrow> (Some e, w2)))"
    using r unfolding main_item_def Let_def audio_def clip_def w1_def by simp
  have f1: "fs w1 (path_str (clip_path k)) = fs w (path_str (clip_path k))" for k
    using audio_ne_clip[of "i + 1" k] by (simp add: w1_def audio_def fs_synthesize_voice)
  have "\<exists>ms1. out w1 = out w @ ms1 \<and> (\<forall>q e. MsgRenderFailed q e \<notin> set ms1)"
    using out_synthesize_voice_cases[of E "lns ! i" "path_str audio" "arg_speaker a" "arg_speed a" w]
    unfolding w1_def by (cases "exists w audio") auto
  then obtain ms1 where ms1: "out w1 = out w @ ms1" "\<forall>q e. MsgRenderFailed q e \<notin> set ms1"
    by blast
  from it obtain d where d: "get_wav_duration E audio w1 = Inr d"
    unfolding unf by (cases "get_wav_duration E audio w1") simp_all
  define argv where "argv = render_args (frames ! i) audio d clip"
  obtain res w2 where sp: "subprocess_run E argv w1 = (res, w2)"
    by (cases "subprocess_run E argv w1")
  from subprocess_runD[OF sp] have o2: "out w2 = out w1"
    and f2: "fs w2 = snd (run_process E w1 argv)"
    by simp_all
  have oo: "output_of argv = path_str clip"
    by (simp add: argv_def)
  have created: "fs w2 p \<noteq> None \<Longrightarrow>
      fs w1 p \<noteq> None \<or> (fst (run_process E w1 argv) = Returned 0 \<and> p = path_str clip)" for p
    using tools unfolding creates_only_output_def f2 oo[symmetric] by blast
  from it d sp have res: "(case (res, w2) of
              (None, w2) \<Rightarrow> (None, w2)
            | (Some (CalledProcessError c), w2) \<Rightarrow>
                (None, print (MsgRenderFailed (path_str clip) (CalledProcessError c)) w2)
            | (Some e, w2) \<Rightarrow> (Some e, w2)) = (None, w')"
    unfolding unf argv_def by simp
  show ?thesis
  proof (cases res)
    case None
    with res have w': "w' = w2"
      by simp
    have "\<forall>k. fs w' (path_str (clip_path k)) \<noteq> None \<longrightarrow>
                fs w (path_str (clip_path k)) \<noteq> None \<or>
                (k = i + 1 \<and> (\<forall>q e. MsgRenderFailed q e \<notin> set ms1))"
      using created f1 ms1(2) clip_path_inj unfolding w' clip_def by metis
    with ms1 o2 w' show ?thesis
      by auto
  next
    case (Some e)
    with res obtain c where e: "e = CalledProcessError c"
      and w': "w' = print (MsgRenderFailed (path_str clip) (CalledProcessError c)) w2"
      by (cases e) auto
    from sp Some e have nz: "fst (run_process E w1 argv) \<noteq> Returned 0"
      by (auto simp: subprocess_run_def Let_def split: prod.splits proc.splits if_splits)
    have "\<forall>k. fs w' (path_str (clip_path k)) \<noteq> None \<longrightarrow> fs w (path_str (clip_path k)) \<noteq> None"
      using created nz f1 unfolding w' by (metis fs_print)
    moreover have "out w' = out w @ (ms1 @ [MsgRenderFailed (path_str clip) (CalledProcessError c)])"
      using ms1(1) o2 w' by simp
    moreover have "\<forall>q e. MsgRenderFailed q e \<in> set (ms1 @ [MsgRenderFailed (path_str clip) (CalledProcessError c)])
        \<longrightarrow> q = path_str (clip_path (i + 1))"
      using ms1(2) by (auto simp: clip_def)
    ultimately show ?thesis
      by blast
  qed
qed

lemma main_loop_effect:
  assumes tools: "creates_only_output E"
    and loop: "main_loop E a frames lns ixs w = (None, w')"
    and rng: "\<forall>i\<in>set ixs. i < length frames \<and> i < length lns"
    and dist: "distinct ixs"
  shows "\<exists>ms. out w' = out w @ ms \<and>
           (\<forall>q e. MsgRenderFailed q e \<in> set ms \<longrightarrow> (\<exists>j\<in>set ixs. q = path_str (clip_path (j + 1)))) \<and>
           (\<forall>k. fs w' (path_str (clip_path k)) \<noteq> None \<longrightarrow>
                fs w (path_str (clip_path k)) \<noteq> None \<or>
                ((\<exists>j\<in>set ixs. k = j + 1) \<and>
                 (\<forall>e. MsgRenderFailed (path_str (clip_path k)) e \<notin> set ms)))"
  using loop rng dist
proof (induction ixs arbitrary: w)
  case Nil
  then show ?case by simp
next
  case (Cons i ixs)
  from Cons.prems(1) obtain w1 where it: "main_item E a frames lns i w = (None, w1)"
    and rest: "main_loop E a frames lns ixs w1 = (None, w')"
    by (auto split: prod.splits option.splits)
  from Cons.prems(2) have r: "i < length frames" "i < length lns"
    by simp_all
  from Cons.prems(3) have ni: "i \<notin> set ixs" and d': "distinct ixs"
    by simp_all
  from main_item_effect[OF tools r it]
  obtain ms1 where ms1: "out w1 = out w @ ms1"
    "\<forall>q e. MsgRenderFailed q e \<in> set ms1 \<longrightarrow> q = path_str (clip_path (i + 1))"
    "\<forall>k. fs w1 (path_str (clip_path k)) \<noteq> None \<longrightarrow>
         fs w (path_str (clip_path k)) \<noteq> None \<or>
         (k = i + 1 \<and> (\<forall>q e. MsgRenderFailed q e \<notin> set ms1))"
    by blast
  from Cons.IH[OF rest _ d'] Cons.prems(2)
  obtain ms2 where ms2: "out w' = out w1 @ ms2"
    "\<forall>q e. MsgRenderFailed q e \<in> set ms2 \<longrightarrow> (\<exists>j\<in>set ixs. q = path_str (clip_path (j + 1)))"
    "\<forall>k. fs w' (path_str (clip_path k)) \<noteq> None \<longrightarrow>
         fs w1 (path_str (clip_path k)) \<noteq> None \<or>
         ((\<exists>j\<in>set ixs. k = j + 1) \<and>
          (\<forall>e. MsgRenderFailed (path_str (clip_path k)) e \<notin> set ms2))"
    by auto
  have o: "out w' = out w @ (ms1 @ ms2)"
    using ms1(1) ms2(1) by simp
  have m: "\<forall>q e. MsgRenderFailed q e \<in> set (ms1 @ ms2) \<longrightarrow>
      (\<exists>j\<in>set (i # ixs). q = path_str (clip_path (j + 1)))"
    using ms1(2) ms2(2) by auto
  have c: "fs w (path_str (clip_path k)) \<noteq> None \<or>
      ((\<exists>j\<in>set (i # ixs). k = j + 1) \<and>
       (\<forall>e. MsgRenderFailed (path_str (clip_path k)) e \<notin> set (ms1 @ ms2)))"
    if ex: "fs w' (path_str (clip_path k)) \<noteq> None" for k
  proof (cases "fs w (path_str (clip_path k)) \<noteq> None")
    case True
    then show ?thesis by blast
  next
    case stale: False
    show ?thesis
    proof (cases "fs w1 (path_str (clip_path k)) \<noteq> None")
      case True
      with ms1(3) stale have k: "k = i + 1" and no1: "\<forall>q e. MsgRenderFailed q e \<notin> set ms1"
        by blast+
      have "MsgRenderFailed (path_str (clip_path k)) e \<notin> set ms2" for e
      proof
        assume "MsgRenderFailed (path_str (clip_path k)) e \<in> set ms2"
        with ms2(2) obtain j where "j \<in> set ixs" "path_str (clip_path k) = path_str (clip_path (j + 1))"
          by blast
        with k ni show False
          using clip_path_inj[of k "j + 1"] by simp
      qed
      with no1 k show ?thesis
        by auto
    next
      case False
      with ms2(3) ex obtain j where j: "j \<in> set ixs" "k = j + 1"
        and no2: "\<forall>e. MsgRenderFailed (path_str (clip_path k)) e \<notin> set ms2"
        by blast
      have "MsgRenderFailed (path_str (clip_path k)) e \<notin> set ms1" for e
      proof
        assume "MsgRenderFailed (path_str (clip_path k)) e \<in> set ms1"
        with ms1(2) have "path_str (clip_path k) = path_str (clip_path (i + 1))"
          by blast
        then have "k = i + 1"
          by (rule clip_path_inj)
        with j ni show False
          by simp
      qed
      with no2 j show ?thesis
        by auto
    qed
  qed
  from o m c show ?case
    by blast
qed

lemma output_of_concat [simp]: "output_of (concat_args output) = output"
  by (simp add: concat_args_def)

lemma sample_creates_only_output: "creates_only_output (sample_env ns q r c)"
  by (auto simp: creates_only_output_def sample_env_def)

lemma render_item:
  assumes o: "others (str ''audio/line001.wav'') = Some (File sample_wav)"
  shows "main_item (sample_env ns q 0 c) sample_args [[str ''img'', str ''a.png'']] [str ''hi''] 0
           (sample_world t others) = (None, after_render (sample_world t others))"
proof -
  let ?W = "sample_world t others"
  let ?E = "sample_env ns q 0 c"
  have f: "fs ?W (path_str (audio_path (0 + 1))) = Some (File sample_wav)"
    using o by (simp add: fs_sample_world audio_path_1 str_ne)
  then have e: "exists ?W (audio_path (0 + 1))"
    by (simp add: exists_def)
  have d: "get_wav_duration ?E (audio_path (0 + 1)) ?W = Inr (TrueDiv 2 24000)"
    using f by (rule sample_duration)
  have p: "run_process ?E ?W (render_args ([[str ''img'', str ''a.png'']] ! 0) (audio_path (0 + 1))
              (TrueDiv 2 24000) (clip_path (0 + 1))) =
           (Returned 0, (fs ?W)(path_str (clip_path (0 + 1)) \<mapsto> File []))"
    by (simp add: sample_run_render)
  from main_item_cached[OF _ _ e d p, of "[str ''hi'']" sample_args]
  show ?thesis
    by (simp add: clip_path_1 after_render_def)
qed

subsection \<open>From the input checks to the manifest\<close>

lemma main_to_manifest:
  assumes "is_dir w (arg_images a)" and "exists w (arg_lines a)"
    and "image_frames E w (arg_images a) = frames" and "frames \<noteq> []"
    and "read_lines_with_paragraphs E (arg_lines a) w = Inr lns"
    and "mkdir audio_dir (warn_mismatch frames lns w) = Inr w1"
    and "mkdir video_dir w1 = Inr w2"
    and "main_loop E a frames lns [0..<item_count frames lns] w2 = (None, w3)"
  shows "main E a w =
     (case write_file E (str ''filelist.txt'') (concat (manifest_entries w3 (item_count frames lns))) w3 of
        (Some e, w4) \<Rightarrow> (Traceback e, w4)
      | (None, w4) \<Rightarrow> main_concat E a w4)"
proof -
  from assms(1-5) have m: "main E a w = main_run E a frames lns (warn_mismatch frames lns w)"
    by (rule main_proceeds)
  show ?thesis
    unfolding m using assms(6-8) by (simp add: main_run_def main_manifest_def)
qed

lemma main_loop_raised:
  assumes "is_dir w (arg_images a)" and "exists w (arg_lines a)"
    and "image_frames E w (arg_images a) = frames" and "frames \<noteq> []"
    and "read_lines_with_paragraphs E (arg_lines a) w = Inr lns"
    and "mkdir audio_dir (warn_mismatch frames lns w) = Inr w1"
    and "mkdir video_dir w1 = Inr w2"
    and "main_loop E a frames lns [0..<item_count frames lns] w2 = (Some e, w3)"
  shows "main E a w = (Traceback e, w3)"
proof -
  from assms(1-5) have m: "main E a w = main_run E a frames lns (warn_mismatch frames lns w)"
    by (rule main_proceeds)
  show ?thesis
    unfolding m using assms(6-8) by (simp add: main_run_def)
qed

lemma write_file_written:
  "disk_write E w p d = Written \<Longrightarrow> write_file E p d w = (None, w\<lparr>fs := (fs w)(p \<mapsto> File d)\<rparr>)"
  by (simp add: write_file_def)



lemma main_concat_not_launched:
  "run_process E w (concat_args (arg_output a)) = (NotLaunched e, fs') \<Longrightarrow>
   \<forall>c. e \<noteq> CalledProcessError c \<Longrightarrow>
   main_concat E a w = (Traceback e, called (Subprocess (concat_args (arg_output a))) (w\<lparr>fs := fs'\<rparr>))"
  by (cases e) (simp_all add: main_concat_def subprocess_run_def)

subsection \<open>Evaluating a first run\<close>

lemma sample_synthesize:
  "synthesize_voice (sample_env ns (Inr sample_response) r c) text (path_str (audio_path k)) 1
     (FloatArg (str ''1.0'')) w = (True, after_synthesis text k w)"
  by (simp add: synthesize_voice_def synthesize_try_def sample_env_def sample_response_def
      raise_for_status_def write_file_def after_synthesis_def speed_query_def Let_def)

lemma sample_args_fields:
  "arg_speaker sample_args = 1" "arg_speed sample_args = FloatArg (str ''1.0'')"
  "arg_output sample_args = str ''output.mp4''"
  by (simp_all add: sample_args_def)

lemma duration_after_synthesis:
  "get_wav_duration (sample_env ns q r c) (audio_path k) (after_synthesis text k w) =
     Inr (TrueDiv 2 24000)"
  by (rule sample_duration) (simp add: after_synthesis_def)

lemma main_item_synth:
  assumes "i < length frames" and "i < length lns"
    and "\<not> exists w (audio_path (i + 1))"
    and "synthesize_voice E (lns ! i) (path_str (audio_path (i + 1))) (arg_speaker a) (arg_speed a) w
           = (ok, w1)"
    and "get_wav_duration E (audio_path (i + 1)) w1 = Inr d"
    and "run_process E w1 (render_args (frames ! i) (audio_path (i + 1)) d (clip_path (i + 1))) =
           (Returned c, fs')"
  shows "main_item E a frames lns i w =
     (None,
      if c = 0
      then called (Subprocess (render_args (frames ! i) (audio_path (i + 1)) d (clip_path (i + 1))))
             (w1\<lparr>fs := fs'\<rparr>)
      else print (MsgRenderFailed (path_str (clip_path (i + 1))) (CalledProcessError c))
             (called (Subprocess (render_args (frames ! i) (audio_path (i + 1)) d (clip_path (i + 1))))
                (w1\<lparr>fs := fs'\<rparr>)))"
  using assms by (simp add: main_item_def Let_def subprocess_run_returned)


lemma mkdir_made: "fs w (path_str p) = None \<Longrightarrow> mkdir p w = Inr (made_dir p w)"
  by (simp add: mkdir_def made_dir_def)

lemma fs_made_dir [simp]: "fs (made_dir p w) = (fs w)(path_str p \<mapsto> Dir)"
  by (simp add: made_dir_def)

lemma out_made_dir [simp]: "out (made_dir p w) = out w"
  by (simp add: made_dir_def)

lemma calls_made_dir [simp]: "calls (made_dir p w) = calls w"
  by (simp add: made_dir_def)

lemma fs_after_synthesis [simp]:
  "fs (after_synthesis t k w) = (fs w)(path_str (audio_path k) \<mapsto> File sample_wav)"
  by (simp add: after_synthesis_def)

lemma out_after_synthesis [simp]: "out (after_synthesis t k w) = out w"
  by (simp add: after_synthesis_def)

lemma calls_after_synthesis [simp]:
  "calls (after_synthesis t k w) = calls w @ [PostAudioQuery t 1, PostSynthesis speed_query 1]"
  by (simp add: after_synthesis_def)

lemma fs_rendered [simp]: "fs (rendered f k w) = (fs w)(path_str (clip_path k) \<mapsto> File [])"
  by (simp add: rendered_def)

lemma out_rendered [simp]: "out (rendered f k w) = out w"
  by (simp add: rendered_def)

lemma calls_rendered [simp]:
  "calls (rendered f k w) =
     calls w @ [Subprocess (render_args f (audio_path k) (TrueDiv 2 24000) (clip_path k))]"
  by (simp add: rendered_def)

lemma fs_render_failed [simp]: "fs (render_failed f k w) = fs w"
  by (simp add: render_failed_def)

lemma out_render_failed [simp]:
  "out (render_failed f k w) =
     out w @ [MsgRenderFailed (path_str (clip_path k)) (CalledProcessError 1)]"
  by (simp add: render_failed_def)

lemma calls_render_failed [simp]:
  "calls (render_failed f k w) =
     calls w @ [Subprocess (render_args f (audio_path k) (TrueDiv 2 24000) (clip_path k))]"
  by (simp add: render_failed_def)

lemma sample_paths:
  "path_str (audio_path 1) = str ''audio/line001.wav''"
  "path_str (audio_path 2) = str ''audio/line002.wav''"
  "path_str (clip_path 1) = str ''clips/clip001.mp4''"
  "path_str (clip_path 2) = str ''clips/clip002.mp4''"
  by (simp_all add: path_str_def audio_path_def audio_dir_def clip_path_def video_dir_def
      fmt03d_def digits_small str_def replicate2)

lemma sample_paths_Suc:
  "path_str (audio_path (Suc 0)) = str ''audio/line001.wav''"
  "path_str (audio_path (Suc (Suc 0))) = str ''audio/line002.wav''"
  "path_str (clip_path (Suc 0)) = str ''clips/clip001.mp4''"
  "path_str (clip_path (Suc (Suc 0))) = str ''clips/clip002.mp4''"
  using sample_paths by (simp_all add: numeral_2_eq_2)

lemmas paths = sample_paths sample_paths_Suc





lemma first_render_fails_fields [simp]:
  "http_audio_query (first_render_fails E) = http_audio_query E"
  "http_synthesis (first_render_fails E) = http_synthesis E"
  "disk_write (first_render_fails E) = disk_write E"
  "wave_header (first_render_fails E) = wave_header E"
  "listdir (first_render_fails E) = listdir E"
  "decode_text (first_render_fails E) = decode_text E"
  by (simp_all add: first_render_fails_def)

lemma first_render_fails_run:
  "run_process (first_render_fails E) w argv =
     (if output_of argv = str ''clips/clip001.mp4'' then (Returned 1, fs w)
      else run_process E w argv)"
  by (simp add: first_render_fails_def)

lemma first_render_fails_same:
  "image_frames (first_render_fails E) = image_frames E"
  "read_lines_with_paragraphs (first_render_fails E) = read_lines_with_paragraphs E"
  "synthesize_voice (first_render_fails E) = synthesize_voice E"
  "get_wav_duration (first_render_fails E) = get_wav_duration E"
  "write_file (first_render_fails E) = write_file E"
  by (intro ext,
      simp add: image_frames_def iterdir_def read_lines_with_paragraphs_def
        synthesize_voice_def synthesize_try_def get_wav_duration_def write_file_def
      cong: sum.case_cong option.case_cong prod.case_cong)+

lemma pair_run:
  defines "E \<equiv> first_render_fails run_env"
    and "F \<equiv> [[str ''img'', str ''a.png''], [str ''img'', str ''b.png'']]"
    and "L \<equiv> [str ''hi'', str ''yo'']"
  defines "Y1 \<equiv> render_failed [str ''img'', str ''a.png''] 1 (after_synthesis (str ''hi'') 1 pair_start)"
  defines "Y2 \<equiv> rendered [str ''img'', str ''b.png''] 2 (after_synthesis (str ''yo'') 2 Y1)"
  shows "image_frames E pair_world (arg_images sample_args) = F"
    and "read_lines_with_paragraphs E (arg_lines sample_args) pair_world = Inr L"
    and "mkdir audio_dir (warn_mismatch F L pair_world) = Inr (made_dir audio_dir pair_world)"
    and "mkdir video_dir (made_dir audio_dir pair_world) = Inr pair_start"
    and "main_loop E sample_args F L [0..<item_count F L] pair_start = (None, Y2)"
    and "\<not> exists Y2 (clip_path 1)" and "exists Y2 (clip_path 2)"
    and "manifest_indices Y2 (item_count F L) = [2]"
proof -
  show fr: "image_frames E pair_world (arg_images sample_args) = F"
    unfolding E_def first_render_fails_same run_env_def F_def by (rule sample_frames_ab)
  show rd: "read_lines_with_paragraphs E (arg_lines sample_args) pair_world = Inr L"
    unfolding E_def first_render_fails_same run_env_def pair_world_def L_def
    by (simp only: sample_read paragraphs_hi_yo)
  have w0: "warn_mismatch F L pair_world = pair_world"
    by (simp add: warn_mismatch_same F_def L_def)
  show "mkdir audio_dir (warn_mismatch F L pair_world) = Inr (made_dir audio_dir pair_world)"
    unfolding w0
    by (rule mkdir_made) (simp add: pair_world_def dirs_str fs_sample_world str_def)
  show "mkdir video_dir (made_dir audio_dir pair_world) = Inr pair_start"
    unfolding pair_start_def
    by (rule mkdir_made) (simp add: pair_world_def dirs_str fs_sample_world str_def)
  have r: "(0::nat) < length F" "(0::nat) < length L" "(1::nat) < length F" "(1::nat) < length L"
    by (simp_all add: F_def L_def)
  have n1: "\<not> exists pair_start (audio_path (0 + 1))"
    by (simp add: exists_def pair_start_def pair_world_def paths dirs_str fs_sample_world str_def)
  have s1: "synthesize_voice E (L ! 0) (path_str (audio_path (0 + 1))) (arg_speaker sample_args)
              (arg_speed sample_args) pair_start = (True, after_synthesis (L ! 0) (0 + 1) pair_start)"
    unfolding E_def first_render_fails_same run_env_def sample_args_fields
    by (rule sample_synthesize)
  have d1: "get_wav_duration E (audio_path (0 + 1)) (after_synthesis (L ! 0) (0 + 1) pair_start) =
      Inr (TrueDiv 2 24000)"
    unfolding E_def first_render_fails_same run_env_def by (rule duration_after_synthesis)
  have p1: "run_process E (after_synthesis (L ! 0) (0 + 1) pair_start)
      (render_args (F ! 0) (audio_path (0 + 1)) (TrueDiv 2 24000) (clip_path (0 + 1))) =
      (Returned 1, fs (after_synthesis (L ! 0) (0 + 1) pair_start))"
    by (simp add: E_def first_render_fails_run paths)
  from main_item_synth[OF r(1,2) n1 s1 d1 p1]
  have i1: "main_item E sample_args F L 0 pair_start = (None, Y1)"
    by (simp add: Y1_def render_failed_def F_def L_def)
  have n2: "\<not> exists Y1 (audio_path (1 + 1))"
    by (simp add: exists_def Y1_def pair_start_def pair_world_def paths dirs_str fs_sample_world str_def)
  have s2: "synthesize_voice E (L ! 1) (path_str (audio_path (1 + 1))) (arg_speaker sample_args)
              (arg_speed sample_args) Y1 = (True, after_synthesis (L ! 1) (1 + 1) Y1)"
    unfolding E_def first_render_fails_same run_env_def sample_args_fields
    by (rule sample_synthesize)
  have d2: "get_wav_duration E (audio_path (1 + 1)) (after_synthesis (L ! 1) (1 + 1) Y1) =
      Inr (TrueDiv 2 24000)"
    unfolding E_def first_render_fails_same run_env_def by (rule duration_after_synthesis)
  have p2: "run_process E (after_synthesis (L ! 1) (1 + 1) Y1)
      (render_args (F ! 1) (audio_path (1 + 1)) (TrueDiv 2 24000) (clip_path (1 + 1))) =
      (Returned 0, (fs (after_synthesis (L ! 1) (1 + 1) Y1))(path_str (clip_path (1 + 1)) \<mapsto> File []))"
    by (simp add: E_def first_render_fails_run run_env_def sample_run_render paths str_def)
  from main_item_synth[OF r(3,4) n2 s2 d2 p2]
  have i2: "main_item E sample_args F L 1 Y1 = (None, Y2)"
    by (simp add: Y2_def rendered_def F_def L_def numeral_2_eq_2)
  have n: "[0..<item_count F L] = [0, 1]"
    by (simp add: item_count_def F_def L_def numeral_2_eq_2)
  show "main_loop E sample_args F L [0..<item_count F L] pair_start = (None, Y2)"
    unfolding n by (simp only: main_loop.simps i1 i2 prod.case option.case)
  show e1: "\<not> exists Y2 (clip_path 1)"
    by (simp add: exists_def Y2_def Y1_def pair_start_def pair_world_def paths dirs_str
        fs_sample_world str_def)
  show e2: "exists Y2 (clip_path 2)"
    by (simp add: exists_def Y2_def paths)
  have c: "item_count F L = 2"
    by (simp add: item_count_def F_def L_def)
  show "manifest_indices Y2 (item_count F L) = [2]"
    using e1 e2 unfolding c manifest_indices_def upt_1_3 by simp
qed

lemma without_ffmpeg_fields [simp]:
  "http_audio_query (without_ffmpeg E) = http_audio_query E"
  "http_synthesis (without_ffmpeg E) = http_synthesis E"
  "disk_write (without_ffmpeg E) = disk_write E"
  "wave_header (without_ffmpeg E) = wave_header E"
  "listdir (without_ffmpeg E) = listdir E"
  "decode_text (without_ffmpeg E) = decode_text E"
  "run_process (without_ffmpeg E) w argv = (NotLaunched FileNotFoundError, fs w)"
  by (simp_all add: without_ffmpeg_def)

lemma without_ffmpeg_same:
  "image_frames (without_ffmpeg E) = image_frames E"
  "read_lines_with_paragraphs (without_ffmpeg E) = read_lines_with_paragraphs E"
  "write_file (without_ffmpeg E) = write_file E"
  by (intro ext,
      simp add: image_frames_def iterdir_def read_lines_with_paragraphs_def write_file_def
      cong: sum.case_cong option.case_cong prod.case_cong)+

subsection \<open>Audio headers and floats\<close>









subsection \<open>C2: pairing images with text blocks\<close>




subsection \<open>C9: how the manifest is built\<close>

text \<open>
  Claim C9, as amended. When the loop over the \<open>N\<close> items has returned, leaving the world
  \<open>w3\<close>, the run writes the manifest next: \<^verbatim>\<open>filelist.txt\<close> receives the entries built
  from \<open>w3\<close>, and when the disk takes the write the run continues with the concatenation
  from the world that holds that file. The indices kept are strictly ascending; every
  entry is the line \<^verbatim>\<open>file '<path>'\<close> for the clip path of a kept index; an index from 1 to
  \<open>N\<close> is kept exactly when a file exists at its clip path in \<open>w3\<close>, so an index with no
  clip file is left out and nothing is raised for it. When the loop raises, the run ends
  with that exception and no manifest is written. Whether the item produced its clip in
  this run plays no part.
\<close>

theorem manifest_construction:
  assumes "is_dir w (arg_images a)" and "exists w (arg_lines a)"
    and "image_frames E w (arg_images a) = frames" and "frames \<noteq> []"
    and "read_lines_with_paragraphs E (arg_lines a) w = Inr lns"
    and "mkdir audio_dir (warn_mismatch frames lns w) = Inr w1"
    and "mkdir video_dir w1 = Inr w2"
  shows "(\<forall>w3. main_loop E a frames lns [0..<item_count frames lns] w2 = (None, w3) \<longrightarrow>
            main E a w =
              (case write_file E (str ''filelist.txt'')
                      (concat (manifest_entries w3 (item_count frames lns))) w3 of
                 (Some e, w4) \<Rightarrow> (Traceback e, w4)
               | (None, w4) \<Rightarrow> main_concat E a w4) \<and>
            (disk_write E w3 (str ''filelist.txt'')
                (concat (manifest_entries w3 (item_count frames lns))) = Written \<longrightarrow>
               main E a w =
                 main_concat E a
                   (w3\<lparr>fs := (fs w3)(str ''filelist.txt'' \<mapsto>
                      File (concat (manifest_entries w3 (item_count frames lns))))\<rparr>)) \<and>
            sorted_wrt (<) (manifest_indices w3 (item_count frames lns)) \<and>
            manifest_entries w3 (item_count frames lns) =
              map (\<lambda>i. str ''file '' @ [39] @ path_str (clip_path i) @ [39, LF])
                (manifest_indices w3 (item_count frames lns)) \<and>
            set (manifest_indices w3 (item_count frames lns)) =
              {i. 1 \<le> i \<and> i \<le> item_count frames lns \<and> exists w3 (clip_path i)} \<and>
            (\<forall>i. 1 \<le> i \<and> i \<le> item_count frames lns \<longrightarrow>
                 (manifest_line (clip_path i) \<in> set (manifest_entries w3 (item_count frames lns)) \<longleftrightarrow>
                  exists w3 (clip_path i)))) \<and>
         (\<forall>e w3. main_loop E a frames lns [0..<item_count frames lns] w2 = (Some e, w3) \<longrightarrow>
            main E a w = (Traceback e, w3))"
proof (intro conjI allI impI)
  fix w3
  assume lp: "main_loop E a frames lns [0..<item_count frames lns] w2 = (None, w3)"
  let ?n = "item_count frames lns"
  show m: "main E a w =
      (case write_file E (str ''filelist.txt'') (concat (manifest_entries w3 ?n)) w3 of
         (Some e, w4) \<Rightarrow> (Traceback e, w4)
       | (None, w4) \<Rightarrow> main_concat E a w4)"
    by (rule main_to_manifest[OF assms lp])
  show "sorted_wrt (<) (manifest_indices w3 ?n)"
    by (rule manifest_indices_sorted)
  show "manifest_entries w3 ?n =
      map (\<lambda>i. str ''file '' @ [39] @ path_str (clip_path i) @ [39, LF]) (manifest_indices w3 ?n)"
    by (simp add: manifest_entries_def manifest_line_def)
  show "set (manifest_indices w3 ?n) = {i. 1 \<le> i \<and> i \<le> ?n \<and> exists w3 (clip_path i)}"
    by (rule manifest_indices_set)
  {
    assume "disk_write E w3 (str ''filelist.txt'') (concat (manifest_entries w3 ?n)) = Written"
    then show "main E a w =
        main_concat E a
          (w3\<lparr>fs := (fs w3)(str ''filelist.txt'' \<mapsto> File (concat (manifest_entries w3 ?n)))\<rparr>)"
      unfolding m by (simp add: write_file_written)
  }
  {
    fix i
    assume "1 \<le> i \<and> i \<le> ?n"
    then show "manifest_line (clip_path i) \<in> set (manifest_entries w3 ?n) \<longleftrightarrow>
        exists w3 (clip_path i)"
      by (simp add: manifest_entry_iff)
  }
next
  fix e w3
  assume "main_loop E a frames lns [0..<item_count frames lns] w2 = (Some e, w3)"
  then show "main E a w = (Traceback e, w3)"
    by (rule main_loop_raised[OF assms])
qed

theorem manifest_construction_witness:
  "main_loop (first_render_fails run_env) sample_args
     [[str ''img'', str ''a.png''], [str ''img'', str ''b.png'']] [str ''hi'', str ''yo'']
     [0..<item_count [[str ''img'', str ''a.png''], [str ''img'', str ''b.png'']] [str ''hi'', str ''yo'']]
     pair_start =
     (None, rendered [str ''img'', str ''b.png''] 2 (after_synthesis (str ''yo'') 2
        (render_failed [str ''img'', str ''a.png''] 1 (after_synthesis (str ''hi'') 1 pair_start)))) \<and>
   \<not> exists (rendered [str ''img'', str ''b.png''] 2 (after_synthesis (str ''yo'') 2
        (render_failed [str ''img'', str ''a.png''] 1 (after_synthesis (str ''hi'') 1 pair_start))))
     (clip_path 1) \<and>
   exists (rendered [str ''img'', str ''b.png''] 2 (after_synthesis (str ''yo'') 2
        (render_failed [str ''img'', str ''a.png''] 1 (after_synthesis (str ''hi'') 1 pair_start))))
     (clip_path 2) \<and>
   manifest_entries (rendered [str ''img'', str ''b.png''] 2 (after_synthesis (str ''yo'') 2
        (render_failed [str ''img'', str ''a.png''] 1 (after_synthesis (str ''hi'') 1 pair_start)))) 2 =
     [str ''file '' @ [39] @ str ''clips/clip002.mp4'' @ [39, LF]] \<and>
   main (first_render_fails run_env) sample_args pair_world =
     main_concat (first_render_fails run_env) sample_args
       (with_manifest (str ''file '' @ [39] @ str ''clips/clip002.mp4'' @ [39, LF])
          (rendered [str ''img'', str ''b.png''] 2 (after_synthesis (str ''yo'') 2
             (render_failed [str ''img'', str ''a.png''] 1 (after_synthesis (str ''hi'') 1 pair_start)))))"
proof -
  let ?E = "first_render_fails run_env"
  let ?F = "[[str ''img'', str ''a.png''], [str ''img'', str ''b.png'']]"
  let ?L = "[str ''hi'', str ''yo'']"
  let ?Y2 = "rendered [str ''img'', str ''b.png''] 2 (after_synthesis (str ''yo'') 2
        (render_failed [str ''img'', str ''a.png''] 1 (after_synthesis (str ''hi'') 1 pair_start)))"
  note run = pair_run
  have isd: "is_dir pair_world (arg_images sample_args)"
    unfolding pair_world_def by (rule sample_is_dir)
  have ex: "exists pair_world (arg_lines sample_args)"
    unfolding pair_world_def by (rule sample_exists)
  have ne: "?F \<noteq> []"
    by simp
  have n: "item_count ?F ?L = 2"
    by (simp add: item_count_def)
  note inst = manifest_construction[OF isd ex run(1) ne run(2) run(3) run(4)]
  from inst run(5) have
    en: "manifest_entries ?Y2 (item_count ?F ?L) =
      map (\<lambda>i. str ''file '' @ [39] @ path_str (clip_path i) @ [39, LF])
        (manifest_indices ?Y2 (item_count ?F ?L))"
    and wr: "disk_write ?E ?Y2 (str ''filelist.txt'')
                (concat (manifest_entries ?Y2 (item_count ?F ?L))) = Written \<longrightarrow>
      main ?E sample_args pair_world =
        main_concat ?E sample_args
          (?Y2\<lparr>fs := (fs ?Y2)(str ''filelist.txt'' \<mapsto>
             File (concat (manifest_entries ?Y2 (item_count ?F ?L))))\<rparr>)"
    by blast+
  from en have en2: "manifest_entries ?Y2 2 = [str ''file '' @ [39] @ str ''clips/clip002.mp4'' @ [39, LF]]"
    unfolding run(8) unfolding n by (simp add: sample_paths)
  have "disk_write ?E ?Y2 (str ''filelist.txt'')
          (concat (manifest_entries ?Y2 (item_count ?F ?L))) = Written"
    by (simp add: run_env_def sample_env_def)
  with wr have "main ?E sample_args pair_world =
        main_concat ?E sample_args
          (?Y2\<lparr>fs := (fs ?Y2)(str ''filelist.txt'' \<mapsto>
             File (concat (manifest_entries ?Y2 (item_count ?F ?L))))\<rparr>)"
    by blast
  then have m: "main ?E sample_args pair_world =
     main_concat ?E sample_args
       (with_manifest (str ''file '' @ [39] @ str ''clips/clip002.mp4'' @ [39, LF]) ?Y2)"
    unfolding n en2 by (simp add: with_manifest_def)
  from run(5) run(6) run(7) en2 m show ?thesis
    by blast
qed

text \<open>
  The claim's last clause fails when an earlier run left a clip: one image, one block,
  the audio and the clip of item 1 on disk, a render that returns 1. Item 1 produces no
  clip in this run, its failure is printed, and the manifest lists its clip path.
\<close>

theorem stale_entry_counterexample:
  "fst (main (sample_env [str ''a.png''] (Inr sample_response) 1 0) sample_args
          (sample_world (str ''hi'') stale_files)) = Exit 0 \<and>
   calls (snd (main (sample_env [str ''a.png''] (Inr sample_response) 1 0) sample_args
          (sample_world (str ''hi'') stale_files))) =
     [Subprocess (render_args [str ''img'', str ''a.png''] (audio_path 1) (TrueDiv 2 24000) (clip_path 1)),
      Subprocess (concat_args (str ''output.mp4''))] \<and>
   out (snd (main (sample_env [str ''a.png''] (Inr sample_response) 1 0) sample_args
          (sample_world (str ''hi'') stale_files))) =
     [MsgRenderFailed (str ''clips/clip001.mp4'') (CalledProcessError 1), MsgDone (str ''output.mp4'')] \<and>
   fs (snd (main (sample_env [str ''a.png''] (Inr sample_response) 1 0) sample_args
          (sample_world (str ''hi'') stale_files))) (str ''filelist.txt'') =
     Some (File (str ''file '' @ [39] @ str ''clips/clip001.mp4'' @ [39, LF]))"
proof -
  let ?E = "sample_env [str ''a.png''] (Inr sample_response) 1 0"
  let ?W = "sample_world (str ''hi'') stale_files"
  let ?V = "with_manifest (manifest_line (clip_path 1)) (after_failed_render ?W)"
  have m: "main ?E sample_args ?W = main_concat ?E sample_args ?V"
    using rerun_main_run[of stale_files "Inr sample_response" 0]
    by (simp add: stale_lookup)
  have fin: "main_concat ?E sample_args ?V =
      (Exit 0, print (MsgDone (arg_output sample_args))
         (called (Subprocess (concat_args (arg_output sample_args)))
            (?V\<lparr>fs := (fs ?V)(str ''output.mp4'' \<mapsto> File [])\<rparr>)))"
    by (rule main_concat_ok) (simp add: sample_run_concat)
  show ?thesis
    unfolding m fin
    by (simp add: with_manifest_def after_failed_render_def sample_world_def sample_args_fields
        manifest_line_def paths str_def)
qed

subsection \<open>C3: a failed concatenation\<close>

text \<open>
  Claim C3, as amended. Once the loop and the writing of the manifest have completed,
  leaving the world \<open>w4\<close>, the run is the concatenation stage on \<open>w4\<close>: the concatenation
  is called whatever the manifest holds, also when it is empty. When the tool runs and
  returns a non-zero status, the failure is reported, then the completion message is
  printed, and the exit code is 0. When the tool cannot be started, the exception is
  caught nowhere: the run ends with a traceback, the exit code is 1, and nothing is
  printed after the call.
\<close>

theorem concat_failure_exit_zero:
  assumes "is_dir w (arg_images a)" and "exists w (arg_lines a)"
    and "image_frames E w (arg_images a) = frames" and "frames \<noteq> []"
    and "read_lines_with_paragraphs E (arg_lines a) w = Inr lns"
    and "mkdir audio_dir (warn_mismatch frames lns w) = Inr w1"
    and "mkdir video_dir w1 = Inr w2"
    and "main_loop E a frames lns [0..<item_count frames lns] w2 = (None, w3)"
    and "main_manifest E (item_count frames lns) w3 = (None, w4)"
  shows "main E a w = main_concat E a w4 \<and>
         calls_since w4 (snd (main E a w)) = [Subprocess (concat_args (arg_output a))] \<and>
         (\<forall>c fs'. run_process E w4 (concat_args (arg_output a)) = (Returned c, fs') \<and> c \<noteq> 0 \<longrightarrow>
            main E a w =
              (Exit 0, print (MsgDone (arg_output a))
                 (print (MsgConcatFailed (CalledProcessError c))
                    (called (Subprocess (concat_args (arg_output a))) (w4\<lparr>fs := fs'\<rparr>)))) \<and>
            exit_code (fst (main E a w)) = 0 \<and>
            out_since w4 (snd (main E a w)) =
              [MsgConcatFailed (CalledProcessError c), MsgDone (arg_output a)]) \<and>
         (\<forall>e fs'. run_process E w4 (concat_args (arg_output a)) = (NotLaunched e, fs') \<and>
                 (\<forall>c. e \<noteq> CalledProcessError c) \<longrightarrow>
            main E a w =
              (Traceback e, called (Subprocess (concat_args (arg_output a))) (w4\<lparr>fs := fs'\<rparr>)) \<and>
            exit_code (fst (main E a w)) = 1 \<and>
            out_since w4 (snd (main E a w)) = [])"
proof (intro conjI allI impI)
  from main_to_manifest[OF assms(1-8)] assms(9)
  show m: "main E a w = main_concat E a w4"
    by (simp add: main_manifest_def)
  obtain st w' where c: "main_concat E a w4 = (st, w')"
    by (cases "main_concat E a w4")
  from main_concatD[OF c] have "calls_since w4 w' = [Subprocess (concat_args (arg_output a))]"
    by simp
  then show "calls_since w4 (snd (main E a w)) = [Subprocess (concat_args (arg_output a))]"
    unfolding m c by simp
  {
    fix c fs'
    assume "run_process E w4 (concat_args (arg_output a)) = (Returned c, fs') \<and> c \<noteq> 0"
    then have r: "main_concat E a w4 =
       (Exit 0, print (MsgDone (arg_output a)) (print (MsgConcatFailed (CalledProcessError c))
          (called (Subprocess (concat_args (arg_output a))) (w4\<lparr>fs := fs'\<rparr>))))"
      by (simp add: main_concat_failed)
    show "main E a w =
       (Exit 0, print (MsgDone (arg_output a)) (print (MsgConcatFailed (CalledProcessError c))
          (called (Subprocess (concat_args (arg_output a))) (w4\<lparr>fs := fs'\<rparr>))))"
      unfolding m r ..
    show "exit_code (fst (main E a w)) = 0"
      unfolding m r by simp
    show "out_since w4 (snd (main E a w)) =
        [MsgConcatFailed (CalledProcessError c), MsgDone (arg_output a)]"
      unfolding m r by (simp add: out_since_def)
  }
  {
    fix e fs'
    assume "run_process E w4 (concat_args (arg_output a)) = (NotLaunched e, fs') \<and>
                 (\<forall>c. e \<noteq> CalledProcessError c)"
    then have r: "main_concat E a w4 =
        (Traceback e, called (Subprocess (concat_args (arg_output a))) (w4\<lparr>fs := fs'\<rparr>))"
      by (simp add: main_concat_not_launched)
    show "main E a w =
        (Traceback e, called (Subprocess (concat_args (arg_output a))) (w4\<lparr>fs := fs'\<rparr>))"
      unfolding m r ..
    show "exit_code (fst (main E a w)) = 1"
      unfolding m r by simp
    show "out_since w4 (snd (main E a w)) = []"
      unfolding m r by (simp add: out_since_def)
  }
qed

text \<open>
  At two runs. One image, one block, the audio of item 1 cached, a render and a
  concatenation that return 1: the manifest is empty, the concatenation is called, and
  the run exits with code 0. One image and an empty text, without ffmpeg: the
  concatenation is called on the empty manifest and the run ends with a traceback.
\<close>

theorem concat_failure_exit_zero_witness:
  "manifest_entries (after_failed_render (sample_world (str ''hi'') cached_files))
     (item_count [[str ''img'', str ''a.png'']] [str ''hi'']) = [] \<and>
   main (sample_env [str ''a.png''] (Inr sample_response) 1 1) sample_args
     (sample_world (str ''hi'') cached_files) =
     (Exit 0, print (MsgDone (str ''output.mp4''))
        (print (MsgConcatFailed (CalledProcessError 1))
           (called (Subprocess (concat_args (str ''output.mp4'')))
              (with_manifest [] (after_failed_render (sample_world (str ''hi'') cached_files)))))) \<and>
   exit_code (fst (main (sample_env [str ''a.png''] (Inr sample_response) 1 1) sample_args
                    (sample_world (str ''hi'') cached_files))) = 0 \<and>
   out_since (with_manifest [] (after_failed_render (sample_world (str ''hi'') cached_files)))
     (snd (main (sample_env [str ''a.png''] (Inr sample_response) 1 1) sample_args
            (sample_world (str ''hi'') cached_files))) =
     [MsgConcatFailed (CalledProcessError 1), MsgDone (str ''output.mp4'')] \<and>
   main (without_ffmpeg (sample_env [str ''a.png''] (Inr sample_response) 0 0)) sample_args
     (sample_world [] Map.empty) =
     (Traceback FileNotFoundError,
      called (Subprocess (concat_args (str ''output.mp4'')))
        (with_manifest []
           (made_dir video_dir (made_dir audio_dir
              (print (MsgLinesShort 1 0) (sample_world [] Map.empty)))))) \<and>
   exit_code (fst (main (without_ffmpeg (sample_env [str ''a.png''] (Inr sample_response) 0 0))
                    sample_args (sample_world [] Map.empty))) = 1 \<and>
   out (snd (main (without_ffmpeg (sample_env [str ''a.png''] (Inr sample_response) 0 0))
               sample_args (sample_world [] Map.empty))) = [MsgLinesShort 1 0]"
proof -
  let ?E = "sample_env [str ''a.png''] (Inr sample_response) 1 1"
  let ?W = "sample_world (str ''hi'') cached_files"
  let ?W3 = "after_failed_render ?W"
  let ?W4 = "with_manifest [] ?W3"
  let ?F = "[[str ''img'', str ''a.png'']]"
  let ?L = "[str ''hi'']"
  have ne: "?F \<noteq> []"
    by simp
  have ao: "arg_output sample_args = str ''output.mp4''"
    by (rule sample_args_fields)
  have fr: "image_frames ?E ?W (arg_images sample_args) = ?F"
    by (rule sample_frames_a)
  have rd: "read_lines_with_paragraphs ?E (arg_lines sample_args) ?W = Inr ?L"
    by (simp only: sample_read paragraphs_hi)
  have w0: "warn_mismatch ?F ?L ?W = ?W"
    by (simp add: warn_mismatch_same)
  have e: "manifest_entries ?W3 (item_count ?F ?L) = []"
    by (simp add: rerun_entries cached_lookup)
  have p: "run_process ?E ?W4 (concat_args (arg_output sample_args)) = (Returned 1, fs ?W4)"
    by (simp add: sample_run_concat)
  have d: "mkdir audio_dir (warn_mismatch ?F ?L ?W) = Inr ?W" "mkdir video_dir ?W = Inr ?W"
    unfolding w0 by (rule rerun_dirs; simp add: cached_lookup)+
  have l: "main_loop ?E sample_args ?F ?L [0..<item_count ?F ?L] ?W = (None, ?W3)"
    by (rule rerun_loop[of cached_files]) (simp add: cached_lookup)
  have m: "main_manifest ?E (item_count ?F ?L) ?W3 = (None, ?W4)"
    by (simp add: rerun_manifest cached_lookup)
  note inst = concat_failure_exit_zero[OF sample_is_dir sample_exists fr ne rd d l m]
  have nz: "(1::nat) \<noteq> 0"
    by simp
  note r1 = inst[THEN conjunct2, THEN conjunct2, THEN conjunct1, rule_format, OF conjI, OF p nz]
  from r1 have a1: "main ?E sample_args ?W =
      (Exit 0, print (MsgDone (arg_output sample_args))
         (print (MsgConcatFailed (CalledProcessError 1))
            (called (Subprocess (concat_args (arg_output sample_args))) (?W4\<lparr>fs := fs ?W4\<rparr>))))"
    and a2: "exit_code (fst (main ?E sample_args ?W)) = 0"
    and a3: "out_since ?W4 (snd (main ?E sample_args ?W)) =
        [MsgConcatFailed (CalledProcessError 1), MsgDone (arg_output sample_args)]"
    by blast+
  from a1 have a1': "main ?E sample_args ?W =
     (Exit 0, print (MsgDone (str ''output.mp4''))
        (print (MsgConcatFailed (CalledProcessError 1))
           (called (Subprocess (concat_args (str ''output.mp4''))) ?W4)))"
    unfolding ao by simp
  let ?E' = "without_ffmpeg (sample_env [str ''a.png''] (Inr sample_response) 0 0)"
  let ?V = "sample_world [] Map.empty"
  let ?Va = "print (MsgLinesShort 1 0) ?V"
  let ?Vb = "made_dir video_dir (made_dir audio_dir ?Va)"
  let ?Vc = "with_manifest [] ?Vb"
  have fr': "image_frames ?E' ?V (arg_images sample_args) = ?F"
    unfolding without_ffmpeg_same by (rule sample_frames_a)
  have rd': "read_lines_with_paragraphs ?E' (arg_lines sample_args) ?V = Inr []"
    unfolding without_ffmpeg_same by (simp only: sample_read paragraphs_Nil)
  have w0': "warn_mismatch ?F [] ?V = ?Va"
    by (simp add: warn_mismatch_def item_count_def)
  have d1': "mkdir audio_dir (warn_mismatch ?F [] ?V) = Inr (made_dir audio_dir ?Va)"
    unfolding w0' by (rule mkdir_made) (simp add: dirs_str fs_sample_world str_def)
  have d2': "mkdir video_dir (made_dir audio_dir ?Va) = Inr ?Vb"
    by (rule mkdir_made) (simp add: dirs_str fs_sample_world str_def)
  have n': "item_count ?F [] = 0"
    by (simp add: item_count_def)
  have l': "main_loop ?E' sample_args ?F [] [0..<item_count ?F []] ?Vb = (None, ?Vb)"
    unfolding n' by simp
  have m': "main_manifest ?E' (item_count ?F []) ?Vb = (None, ?Vc)"
    unfolding n' main_manifest_def without_ffmpeg_same
    by (simp add: sample_write with_manifest_def)
  have p': "run_process ?E' ?Vc (concat_args (arg_output sample_args)) =
      (NotLaunched FileNotFoundError, fs ?Vc)"
    by simp
  note inst' = concat_failure_exit_zero[OF sample_is_dir sample_exists fr' ne rd' d1' d2' l' m']
  have nc: "\<forall>c. FileNotFoundError \<noteq> CalledProcessError c"
    by simp
  note r2 = inst'[THEN conjunct2, THEN conjunct2, THEN conjunct2, rule_format, OF conjI, OF p' nc]
  from r2 have b1: "main ?E' sample_args ?V =
      (Traceback FileNotFoundError,
       called (Subprocess (concat_args (arg_output sample_args))) (?Vc\<lparr>fs := fs ?Vc\<rparr>))"
    and b2: "exit_code (fst (main ?E' sample_args ?V)) = 1"
    by blast+
  from b1 have b1': "main ?E' sample_args ?V =
      (Traceback FileNotFoundError, called (Subprocess (concat_args (str ''output.mp4''))) ?Vc)"
    unfolding ao by simp
  have b3: "out (snd (main ?E' sample_args ?V)) = [MsgLinesShort 1 0]"
    unfolding b1' by (simp add: with_manifest_def sample_world_def)
  from a3 have a3': "out_since ?W4 (snd (main ?E sample_args ?W)) =
        [MsgConcatFailed (CalledProcessError 1), MsgDone (str ''output.mp4'')]"
    unfolding ao .
  from e a1' a2 a3' b1' b2 b3 show ?thesis
    by blast
qed

text \<open>
  The claim as stated fails: one image, one paragraph, the audio of item 1 cached, a
  render that returns 1 and a concatenation that returns 1. The manifest is empty, the
  concatenation is attempted, its failure is printed, and the exit code is 0.
\<close>

theorem concat_failure_counterexample:
  "exit_code (fst (main (sample_env [str ''a.png''] (Inr sample_response) 1 1) sample_args
                    (sample_world (str ''hi'') cached_files))) = 0 \<and>
   out (snd (main (sample_env [str ''a.png''] (Inr sample_response) 1 1) sample_args
               (sample_world (str ''hi'') cached_files))) =
     [MsgRenderFailed (str ''clips/clip001.mp4'') (CalledProcessError 1),
      MsgConcatFailed (CalledProcessError 1), MsgDone (str ''output.mp4'')] \<and>
   fs (snd (main (sample_env [str ''a.png''] (Inr sample_response) 1 1) sample_args
               (sample_world (str ''hi'') cached_files))) (str ''filelist.txt'') = Some (File [])"
  using rerun_main[of cached_files "Inr sample_response"]
  by (simp add: cached_lookup)

subsection \<open>C8: the empty-input check\<close>

text \<open>
  Claim C8, as amended. When the image directory and the text file exist: with no image
  file the run ends at once with exit code 1 and the message of line 71, before anything
  else happens. With at least one image and a text that yields no block the run is not
  ended: the warning that lines are short is printed, no item is processed, the two
  directories are created, an empty manifest is written and the concatenation is called;
  the only steps that can end the run before that are the creation of a directory and
  the writing of the manifest, when they raise. The status is never the exit 1 of the
  input checks, and when the concatenation tool has run, the exit code is 0.
\<close>

theorem empty_input_check:
  assumes "is_dir w (arg_images a)" and "exists w (arg_lines a)"
  shows "(image_frames E w (arg_images a) = [] \<longrightarrow> main E a w = (Exit 1, print MsgNoImages w)) \<and>
         (image_frames E w (arg_images a) = frames \<and> frames \<noteq> [] \<and>
          read_lines_with_paragraphs E (arg_lines a) w = Inr [] \<longrightarrow>
            main E a w =
              (case mkdir audio_dir (print (MsgLinesShort (length frames) 0) w) of
                 Inl e \<Rightarrow> (Traceback e, print (MsgLinesShort (length frames) 0) w)
               | Inr w1 \<Rightarrow>
                   (case mkdir video_dir w1 of
                      Inl e \<Rightarrow> (Traceback e, w1)
                    | Inr w2 \<Rightarrow>
                        (case write_file E (str ''filelist.txt'') [] w2 of
                           (Some e, w4) \<Rightarrow> (Traceback e, w4)
                         | (None, w4) \<Rightarrow> main_concat E a w4))) \<and>
            (fst (main E a w) = Exit 0 \<or> (\<exists>e. fst (main E a w) = Traceback e)) \<and>
            (\<exists>ms. out_since w (snd (main E a w)) = MsgLinesShort (length frames) 0 # ms) \<and>
            (calls_since w (snd (main E a w)) = [] \<or>
             calls_since w (snd (main E a w)) = [Subprocess (concat_args (arg_output a))]) \<and>
            (\<forall>w1 w2. mkdir audio_dir (print (MsgLinesShort (length frames) 0) w) = Inr w1 \<and>
                     mkdir video_dir w1 = Inr w2 \<and>
                     disk_write E w2 (str ''filelist.txt'') [] = Written \<longrightarrow>
               main E a w =
                 main_concat E a (w2\<lparr>fs := (fs w2)(str ''filelist.txt'' \<mapsto> File [])\<rparr>) \<and>
               calls_since w (snd (main E a w)) = [Subprocess (concat_args (arg_output a))] \<and>
               (\<forall>c fs'. run_process E (w2\<lparr>fs := (fs w2)(str ''filelist.txt'' \<mapsto> File [])\<rparr>)
                           (concat_args (arg_output a)) = (Returned c, fs') \<longrightarrow>
                  fst (main E a w) = Exit 0)))"
proof (intro conjI impI)
  assume "image_frames E w (arg_images a) = []"
  with assms show "main E a w = (Exit 1, print MsgNoImages w)"
    by (rule main_no_images)
next
  assume h: "image_frames E w (arg_images a) = frames \<and> frames \<noteq> [] \<and>
          read_lines_with_paragraphs E (arg_lines a) w = Inr []"
  let ?w0 = "print (MsgLinesShort (length frames) 0) w"
  from h have w0: "warn_mismatch frames [] w = ?w0"
    by (simp add: warn_mismatch_def item_count_def)
  from h assms have m: "main E a w = main_run E a frames [] ?w0"
    by (simp add: main_proceeds w0)
  show eq: "main E a w =
      (case mkdir audio_dir ?w0 of
         Inl e \<Rightarrow> (Traceback e, ?w0)
       | Inr w1 \<Rightarrow>
           (case mkdir video_dir w1 of
              Inl e \<Rightarrow> (Traceback e, w1)
            | Inr w2 \<Rightarrow>
                (case write_file E (str ''filelist.txt'') [] w2 of
                   (Some e, w4) \<Rightarrow> (Traceback e, w4)
                 | (None, w4) \<Rightarrow> main_concat E a w4)))"
    unfolding m by (rule main_run_no_lines)
  have o0: "out ?w0 = out w @ [MsgLinesShort (length frames) 0]"
    by simp
  have c0: "calls ?w0 = calls w"
    by simp
  obtain st w' where r: "main_run E a frames [] ?w0 = (st, w')"
    by (cases "main_run E a frames [] ?w0")
  from r have "(st = Exit 0 \<or> (\<exists>e. st = Traceback e)) \<and>
      (\<exists>ms. out w' = out ?w0 @ ms) \<and>
      (calls w' = calls ?w0 \<or> calls w' = calls ?w0 @ [Subprocess (concat_args (arg_output a))])"
    unfolding main_run_no_lines
    by (auto split: sum.splits prod.splits option.splits
        dest!: mkdirD write_fileD main_concatD)
  with o0 c0 have
    "(st = Exit 0 \<or> (\<exists>e. st = Traceback e)) \<and>
     (\<exists>ms. out w' = out w @ MsgLinesShort (length frames) 0 # ms) \<and>
     (calls w' = calls w @ [] \<or> calls w' = calls w @ [Subprocess (concat_args (arg_output a))])"
    by auto
  then have res:
    "(st = Exit 0 \<or> (\<exists>e. st = Traceback e)) \<and>
     (\<exists>ms. out_since w w' = MsgLinesShort (length frames) 0 # ms) \<and>
     (calls_since w w' = [] \<or> calls_since w w' = [Subprocess (concat_args (arg_output a))])"
    by (auto simp: out_since_def calls_since_def)
  from m r have f: "fst (main E a w) = st" and s: "snd (main E a w) = w'"
    by simp_all
  from res show "fst (main E a w) = Exit 0 \<or> (\<exists>e. fst (main E a w) = Traceback e)"
    unfolding f s by blast
  from res show "\<exists>ms. out_since w (snd (main E a w)) = MsgLinesShort (length frames) 0 # ms"
    unfolding f s by blast
  from res show "calls_since w (snd (main E a w)) = [] \<or>
             calls_since w (snd (main E a w)) = [Subprocess (concat_args (arg_output a))]"
    unfolding f s by blast
  show "\<forall>w1 w2. mkdir audio_dir ?w0 = Inr w1 \<and> mkdir video_dir w1 = Inr w2 \<and>
                     disk_write E w2 (str ''filelist.txt'') [] = Written \<longrightarrow>
               main E a w =
                 main_concat E a (w2\<lparr>fs := (fs w2)(str ''filelist.txt'' \<mapsto> File [])\<rparr>) \<and>
               calls_since w (snd (main E a w)) = [Subprocess (concat_args (arg_output a))] \<and>
               (\<forall>c fs'. run_process E (w2\<lparr>fs := (fs w2)(str ''filelist.txt'' \<mapsto> File [])\<rparr>)
                           (concat_args (arg_output a)) = (Returned c, fs') \<longrightarrow>
                  fst (main E a w) = Exit 0)"
  proof (intro allI impI)
    fix w1 w2
    assume g: "mkdir audio_dir ?w0 = Inr w1 \<and> mkdir video_dir w1 = Inr w2 \<and>
                     disk_write E w2 (str ''filelist.txt'') [] = Written"
    let ?w4 = "w2\<lparr>fs := (fs w2)(str ''filelist.txt'' \<mapsto> File [])\<rparr>"
    from g have mc: "main E a w = main_concat E a ?w4"
      unfolding eq by (simp add: write_file_written)
    from g have c2: "calls w2 = calls w"
      using mkdirD[of audio_dir ?w0 w1] mkdirD[of video_dir w1 w2] by simp
    obtain st' w'' where cc: "main_concat E a ?w4 = (st', w'')"
      by (cases "main_concat E a ?w4")
    from main_concatD[OF cc] c2
    have cs: "calls_since w (snd (main E a w)) = [Subprocess (concat_args (arg_output a))]"
      unfolding mc cc by (simp add: calls_since_def)
    have ex: "\<forall>c fs'. run_process E ?w4 (concat_args (arg_output a)) = (Returned c, fs') \<longrightarrow>
                  fst (main E a w) = Exit 0"
    proof (intro allI impI)
      fix c fs'
      assume p: "run_process E ?w4 (concat_args (arg_output a)) = (Returned c, fs')"
      show "fst (main E a w) = Exit 0"
        unfolding mc
        by (cases "c = 0") (simp_all add: main_concat_ok main_concat_failed p)
    qed
    from mc cs ex show "main E a w = main_concat E a ?w4 \<and>
               calls_since w (snd (main E a w)) = [Subprocess (concat_args (arg_output a))] \<and>
               (\<forall>c fs'. run_process E ?w4 (concat_args (arg_output a)) = (Returned c, fs') \<longrightarrow>
                  fst (main E a w) = Exit 0)"
      by blast
  qed
qed

theorem empty_input_check_witness:
  "is_dir (sample_world (str ''hi'') Map.empty) (arg_images sample_args) \<and>
   exists (sample_world (str ''hi'') Map.empty) (arg_lines sample_args) \<and>
   image_frames (sample_env [str ''notes.txt''] (Inr sample_response) 0 0)
     (sample_world (str ''hi'') Map.empty) (arg_images sample_args) = [] \<and>
   main (sample_env [str ''notes.txt''] (Inr sample_response) 0 0) sample_args
     (sample_world (str ''hi'') Map.empty) =
     (Exit 1, print MsgNoImages (sample_world (str ''hi'') Map.empty)) \<and>
   image_frames (sample_env [str ''a.png''] (Inr sample_response) 0 1)
     (sample_world [] Map.empty) (arg_images sample_args) = [[str ''img'', str ''a.png'']] \<and>
   read_lines_with_paragraphs (sample_env [str ''a.png''] (Inr sample_response) 0 1)
     (arg_lines sample_args) (sample_world [] Map.empty) = Inr [] \<and>
   main (sample_env [str ''a.png''] (Inr sample_response) 0 1) sample_args
     (sample_world [] Map.empty) =
     main_concat (sample_env [str ''a.png''] (Inr sample_response) 0 1) sample_args
       (with_manifest []
          (made_dir video_dir (made_dir audio_dir
             (print (MsgLinesShort 1 0) (sample_world [] Map.empty))))) \<and>
   calls_since (sample_world [] Map.empty)
     (snd (main (sample_env [str ''a.png''] (Inr sample_response) 0 1) sample_args
            (sample_world [] Map.empty))) = [Subprocess (concat_args (arg_output sample_args))] \<and>
   fst (main (sample_env [str ''a.png''] (Inr sample_response) 0 1) sample_args
          (sample_world [] Map.empty)) = Exit 0"
proof -
  let ?E0 = "sample_env [str ''notes.txt''] (Inr sample_response) 0 0"
  let ?V = "sample_world (str ''hi'') Map.empty"
  let ?E1 = "sample_env [str ''a.png''] (Inr sample_response) 0 1"
  let ?W = "sample_world [] Map.empty"
  let ?Wa = "print (MsgLinesShort 1 0) ?W"
  let ?Wb = "made_dir audio_dir ?Wa"
  let ?Wc = "made_dir video_dir ?Wb"
  have f0: "image_frames ?E0 ?V (arg_images sample_args) = []"
    by (rule sample_frames_notes)
  have f1: "image_frames ?E1 ?W (arg_images sample_args) = [[str ''img'', str ''a.png'']]"
    by (rule sample_frames_a)
  have r1: "read_lines_with_paragraphs ?E1 (arg_lines sample_args) ?W = Inr []"
    by (simp add: sample_read paragraphs_Nil)
  from empty_input_check[of ?V sample_args ?E0, OF sample_is_dir sample_exists] f0
  have a: "main ?E0 sample_args ?V = (Exit 1, print MsgNoImages ?V)"
    by blast
  have ne: "[[str ''img'', str ''a.png'']] \<noteq> ([]::pypath list)"
    by simp
  have d1: "mkdir audio_dir (print (MsgLinesShort (length [[str ''img'', str ''a.png'']]) 0) ?W) = Inr ?Wb"
    by (simp add: mkdir_made dirs_str fs_sample_world str_def)
  have d2: "mkdir video_dir ?Wb = Inr ?Wc"
    by (rule mkdir_made) (simp add: dirs_str fs_sample_world str_def)
  have dw: "disk_write ?E1 ?Wc (str ''filelist.txt'') [] = Written"
    by (simp add: sample_env_def)
  have pr: "run_process ?E1 (?Wc\<lparr>fs := (fs ?Wc)(str ''filelist.txt'' \<mapsto> File [])\<rparr>)
      (concat_args (arg_output sample_args)) =
      (Returned 1, fs (?Wc\<lparr>fs := (fs ?Wc)(str ''filelist.txt'' \<mapsto> File [])\<rparr>))"
    by (simp add: sample_run_concat)
  note inst = empty_input_check[of ?W sample_args ?E1 "[[str ''img'', str ''a.png'']]",
      OF sample_is_dir sample_exists, THEN conjunct2, rule_format, OF conjI, OF f1 conjI, OF ne r1]
  note last = inst[THEN conjunct2, THEN conjunct2, THEN conjunct2, THEN conjunct2, rule_format,
      OF conjI, OF d1 conjI, OF d2 dw]
  from last have b: "main ?E1 sample_args ?W =
      main_concat ?E1 sample_args (?Wc\<lparr>fs := (fs ?Wc)(str ''filelist.txt'' \<mapsto> File [])\<rparr>)"
    and c: "calls_since ?W (snd (main ?E1 sample_args ?W)) =
      [Subprocess (concat_args (arg_output sample_args))]"
    by blast+
  from last[THEN conjunct2, THEN conjunct2, rule_format, OF pr]
  have x: "fst (main ?E1 sample_args ?W) = Exit 0" .
  from b have b': "main ?E1 sample_args ?W = main_concat ?E1 sample_args (with_manifest [] ?Wc)"
    by (simp add: with_manifest_def)
  from sample_is_dir sample_exists f0 a f1 r1 b' c x show ?thesis
    by blast
qed

text \<open>
  The claim as stated fails for an empty text: one image \<^verbatim>\<open>a.png\<close>, an empty text file,
  a concatenation that returns 1. The run prints the warning, writes an empty manifest,
  calls the concatenation, reports its failure and ends with exit code 0.
\<close>

theorem empty_text_counterexample:
  "read_lines_with_paragraphs (sample_env [str ''a.png''] (Inr sample_response) 0 1)
     (arg_lines sample_args) (sample_world [] Map.empty) = Inr [] \<and>
   exit_code (fst (main (sample_env [str ''a.png''] (Inr sample_response) 0 1) sample_args
                    (sample_world [] Map.empty))) = 0 \<and>
   calls (snd (main (sample_env [str ''a.png''] (Inr sample_response) 0 1) sample_args
                 (sample_world [] Map.empty))) = [Subprocess (concat_args (str ''output.mp4''))] \<and>
   out (snd (main (sample_env [str ''a.png''] (Inr sample_response) 0 1) sample_args
               (sample_world [] Map.empty))) =
     [MsgLinesShort 1 0, MsgConcatFailed (CalledProcessError 1), MsgDone (str ''output.mp4'')] \<and>
   fs (snd (main (sample_env [str ''a.png''] (Inr sample_response) 0 1) sample_args
              (sample_world [] Map.empty))) (str ''filelist.txt'') = Some (File [])"
  unfolding sample_main_no_lines
  by (simp add: sample_read paragraphs_Nil)

subsection \<open>C5: the duration of a clip\<close>




subsection \<open>C6: which clips the manifest lists\<close>

text \<open>
  Claim C6, as amended. The program keeps no record of which steps succeeded. When the
  loop has returned, leaving the world \<open>w3\<close>, the manifest that the run writes holds, for
  an item number \<open>i\<close> from 1 to \<open>N\<close>, the line of its clip exactly when a file is at its
  clip path in \<open>w3\<close>. What this says about the run: if the subprocesses create no file
  but their own output, and that only when they return 0, then an entry whose clip file
  was not on disk before the loop belongs to an item whose render did not fail in this
  run (no render-failed message for that clip was printed). A clip file left by an
  earlier run is listed whatever happened to the item in this run.
\<close>

theorem manifest_eligibility:
  assumes "is_dir w (arg_images a)" and "exists w (arg_lines a)"
    and "image_frames E w (arg_images a) = frames" and "frames \<noteq> []"
    and "read_lines_with_paragraphs E (arg_lines a) w = Inr lns"
    and "mkdir audio_dir (warn_mismatch frames lns w) = Inr w1"
    and "mkdir video_dir w1 = Inr w2"
    and "main_loop E a frames lns [0..<item_count frames lns] w2 = (None, w3)"
    and "1 \<le> i" and "i \<le> item_count frames lns"
  shows "main E a w =
           (case write_file E (str ''filelist.txt'')
                   (concat (manifest_entries w3 (item_count frames lns))) w3 of
              (Some e, w4) \<Rightarrow> (Traceback e, w4)
            | (None, w4) \<Rightarrow> main_concat E a w4) \<and>
         (manifest_line (clip_path i) \<in> set (manifest_entries w3 (item_count frames lns)) \<longleftrightarrow>
            exists w3 (clip_path i)) \<and>
         (creates_only_output E \<and> \<not> exists w2 (clip_path i) \<and>
          manifest_line (clip_path i) \<in> set (manifest_entries w3 (item_count frames lns)) \<longrightarrow>
            (\<forall>e. MsgRenderFailed (path_str (clip_path i)) e \<notin> set (out_since w2 w3)))"
proof (intro conjI impI)
  show "main E a w =
           (case write_file E (str ''filelist.txt'')
                   (concat (manifest_entries w3 (item_count frames lns))) w3 of
              (Some e, w4) \<Rightarrow> (Traceback e, w4)
            | (None, w4) \<Rightarrow> main_concat E a w4)"
    by (rule main_to_manifest[OF assms(1-8)])
  show iff: "manifest_line (clip_path i) \<in> set (manifest_entries w3 (item_count frames lns)) \<longleftrightarrow>
            exists w3 (clip_path i)"
    using assms(9,10) by (rule manifest_entry_iff)
  assume h: "creates_only_output E \<and> \<not> exists w2 (clip_path i) \<and>
          manifest_line (clip_path i) \<in> set (manifest_entries w3 (item_count frames lns))"
  have rng: "\<forall>j\<in>set [0..<item_count frames lns]. j < length frames \<and> j < length lns"
    by (simp add: item_count_def)
  from h have tools: "creates_only_output E"
    by blast
  from main_loop_effect[OF tools assms(8) rng]
  obtain ms where ms: "out w3 = out w2 @ ms"
    "\<forall>k. fs w3 (path_str (clip_path k)) \<noteq> None \<longrightarrow>
         fs w2 (path_str (clip_path k)) \<noteq> None \<or>
         ((\<exists>j\<in>set [0..<item_count frames lns]. k = j + 1) \<and>
          (\<forall>e. MsgRenderFailed (path_str (clip_path k)) e \<notin> set ms))"
    by auto
  from h iff have "fs w3 (path_str (clip_path i)) \<noteq> None" "fs w2 (path_str (clip_path i)) = None"
    by (simp_all add: exists_def)
  with ms(2) have "\<forall>e. MsgRenderFailed (path_str (clip_path i)) e \<notin> set ms"
    by blast
  moreover from ms(1) have "out_since w2 w3 = ms"
    by (simp add: out_since_def)
  ultimately show "\<forall>e. MsgRenderFailed (path_str (clip_path i)) e \<notin> set (out_since w2 w3)"
    by simp
qed

theorem manifest_eligibility_witness:
  "creates_only_output (sample_env [str ''a.png''] (Inr sample_response) 0 0) \<and>
   main_loop (sample_env [str ''a.png''] (Inr sample_response) 0 0) sample_args
     [[str ''img'', str ''a.png'']] [str ''hi'']
     [0..<item_count [[str ''img'', str ''a.png'']] [str ''hi'']]
     (sample_world (str ''hi'') cached_files) =
     (None, after_render (sample_world (str ''hi'') cached_files)) \<and>
   \<not> exists (sample_world (str ''hi'') cached_files) (clip_path 1) \<and>
   exists (after_render (sample_world (str ''hi'') cached_files)) (clip_path 1) \<and>
   manifest_line (clip_path 1) \<in>
     set (manifest_entries (after_render (sample_world (str ''hi'') cached_files))
            (item_count [[str ''img'', str ''a.png'']] [str ''hi''])) \<and>
   (\<forall>e. MsgRenderFailed (path_str (clip_path 1)) e \<notin>
      set (out_since (sample_world (str ''hi'') cached_files)
             (after_render (sample_world (str ''hi'') cached_files)))) \<and>
   main (sample_env [str ''a.png''] (Inr sample_response) 0 0) sample_args
     (sample_world (str ''hi'') cached_files) =
     main_concat (sample_env [str ''a.png''] (Inr sample_response) 0 0) sample_args
       (with_manifest (manifest_line (clip_path 1))
          (after_render (sample_world (str ''hi'') cached_files)))"
proof -
  let ?E = "sample_env [str ''a.png''] (Inr sample_response) 0 0"
  let ?W = "sample_world (str ''hi'') cached_files"
  let ?F = "[[str ''img'', str ''a.png'']]"
  let ?L = "[str ''hi'']"
  have t: "creates_only_output ?E"
    by (rule sample_creates_only_output)
  have n: "item_count ?F ?L = 1"
    by (simp add: item_count_def)
  have lp: "main_loop ?E sample_args ?F ?L [0..<item_count ?F ?L] ?W = (None, after_render ?W)"
    using render_item[of cached_files "[str ''a.png'']" "Inr sample_response" 0 "str ''hi''"]
    by (simp add: n cached_lookup)
  have ne: "\<not> exists ?W (clip_path 1)"
    by (simp add: exists_def clip_path_1 fs_sample_world str_ne cached_lookup)
  have ex: "exists (after_render ?W) (clip_path 1)"
    by (simp add: exists_def clip_path_1 after_render_def)
  have i: "(1::nat) \<le> 1" "1 \<le> item_count ?F ?L"
    by (simp_all add: n)
  have fr: "image_frames ?E ?W (arg_images sample_args) = ?F"
    by (rule sample_frames_a)
  have rd: "read_lines_with_paragraphs ?E (arg_lines sample_args) ?W = Inr ?L"
    by (simp only: sample_read paragraphs_hi)
  have w0: "warn_mismatch ?F ?L ?W = ?W"
    by (simp add: warn_mismatch_same)
  have d: "mkdir audio_dir (warn_mismatch ?F ?L ?W) = Inr ?W" "mkdir video_dir ?W = Inr ?W"
    unfolding w0 by (rule rerun_dirs; simp add: cached_lookup)+
  have nf: "?F \<noteq> []"
    by simp
  note inst = manifest_eligibility[OF sample_is_dir sample_exists fr nf rd d lp i]
  from inst ex have en: "manifest_line (clip_path 1) \<in>
     set (manifest_entries (after_render ?W) (item_count ?F ?L))"
    by blast
  with inst t ne have nfl: "\<forall>e. MsgRenderFailed (path_str (clip_path 1)) e \<notin>
      set (out_since ?W (after_render ?W))"
    by blast
  from inst have m0: "main ?E sample_args ?W =
           (case write_file ?E (str ''filelist.txt'')
                   (concat (manifest_entries (after_render ?W) (item_count ?F ?L))) (after_render ?W) of
              (Some e, w4) \<Rightarrow> (Traceback e, w4)
            | (None, w4) \<Rightarrow> main_concat ?E sample_args w4)"
    by (rule conjunct1)
  have me: "manifest_entries (after_render ?W) (item_count ?F ?L) = [manifest_line (clip_path 1)]"
    using ex by (simp add: n manifest_entries_1)
  have m: "main ?E sample_args ?W =
     main_concat ?E sample_args (with_manifest (manifest_line (clip_path 1)) (after_render ?W))"
    unfolding m0 me by (simp add: sample_write with_manifest_def)
  from t lp ne ex en nfl m show ?thesis
    by blast
qed

text \<open>
  The claim as stated fails when an earlier run left a clip: one image, one paragraph,
  the audio and the clip of item 1 on disk, a render that returns 1. The failure of the
  render is printed, and the manifest still lists the clip of item 1.
\<close>

theorem stale_clip_counterexample:
  "out (snd (main (sample_env [str ''a.png''] (Inr sample_response) 1 1) sample_args
               (sample_world (str ''hi'') stale_files))) =
     [MsgRenderFailed (str ''clips/clip001.mp4'') (CalledProcessError 1),
      MsgConcatFailed (CalledProcessError 1), MsgDone (str ''output.mp4'')] \<and>
   fs (snd (main (sample_env [str ''a.png''] (Inr sample_response) 1 1) sample_args
               (sample_world (str ''hi'') stale_files))) (str ''filelist.txt'') =
     Some (File (str ''file '' @ [39] @ str ''clips/clip001.mp4'' @ [39, LF]))"
  using rerun_main[of stale_files "Inr sample_response"]
  by (simp add: stale_lookup manifest_line_def clip_path_1)

end
